theory Spec2Isabelle
  imports
    Main
    "HOL-Library.Word"
    "HOL-Library.Char_ord"
    "HOL-Library.List_Lexorder"
    "HOL-Library.AList"
begin

unbundle bit_operations_syntax

section \<open>Text\<close>

text \<open>
  The JavaScript strings of the workers, and the texts that the linker only compares
  with ASCII literals, are \<^typ>\<open>string\<close>. The character classes below are the ASCII
  ones: JavaScript's \<open>\d\<close>, \<open>\w\<close>, \<open>\b\<close> and \<open>/i\<close> without the \<open>u\<close> flag are ASCII-only,
  a character above 127 being an ordinary non-word character, and the hexadecimal class
  of the linker is written out as ASCII ranges.
\<close>

definition code :: "char \<Rightarrow> nat" where
  "code c = of_char c"

definition is_digit :: "char \<Rightarrow> bool" where
  "is_digit c = (48 \<le> code c \<and> code c \<le> 57)"

definition is_upper :: "char \<Rightarrow> bool" where
  "is_upper c = (65 \<le> code c \<and> code c \<le> 90)"

definition is_lower :: "char \<Rightarrow> bool" where
  "is_lower c = (97 \<le> code c \<and> code c \<le> 122)"

text \<open>\<open>\w\<close>: letters, digits and the underscore.\<close>

definition is_word :: "char \<Rightarrow> bool" where
  "is_word c = (is_digit c \<or> is_upper c \<or> is_lower c \<or> code c = 95)"

text \<open>\<open>[0-9a-fA-F]\<close>\<close>

definition is_hex :: "char \<Rightarrow> bool" where
  "is_hex c = (is_digit c \<or> (97 \<le> code c \<and> code c \<le> 102) \<or> (65 \<le> code c \<and> code c \<le> 70))"

text \<open>Python's \<open>\s\<close> on ASCII: tab, line feed, vertical tab, form feed, carriage return,
  the four separators \<open>0x1c\<close> to \<open>0x1f\<close>, and the space.\<close>

definition is_space :: "char \<Rightarrow> bool" where
  "is_space c = ((9 \<le> code c \<and> code c \<le> 13) \<or> (28 \<le> code c \<and> code c \<le> 32))"

definition upper_char :: "char \<Rightarrow> char" where
  "upper_char c = (if is_lower c then char_of (code c - 32) else c)"

definition lower_char :: "char \<Rightarrow> char" where
  "lower_char c = (if is_upper c then char_of (code c + 32) else c)"

text \<open>\<open>str.upper()\<close>, \<open>str.lower()\<close>, \<open>String.prototype.toUpperCase\<close>, \<open>toLowerCase\<close>\<close>

definition upper :: "string \<Rightarrow> string" where
  "upper s = map upper_char s"

definition lower :: "string \<Rightarrow> string" where
  "lower s = map lower_char s"

text \<open>\<open>s.replace(c, "")\<close> for a one-character \<open>c\<close>; \<open>s.replace(/-/g, "")\<close>\<close>

definition remove_char :: "char \<Rightarrow> string \<Rightarrow> string" where
  "remove_char c s = filter (\<lambda>x. x \<noteq> c) s"

text \<open>The slice \<open>s[i:j]\<close> for \<open>0 \<le> i \<le> j\<close>; Python cuts a slice at the end of the string.\<close>

definition slice :: "nat \<Rightarrow> nat \<Rightarrow> 'a list \<Rightarrow> 'a list" where
  "slice i j s = take (j - i) (drop i s)"

text \<open>Strip a literal prefix: \<open>Some\<close> the rest when the text starts with it.\<close>

fun strip_prefix :: "'a list \<Rightarrow> 'a list \<Rightarrow> 'a list option" where
  "strip_prefix [] s = Some s"
| "strip_prefix (p # ps) [] = None"
| "strip_prefix (p # ps) (c # cs) = (if p = c then strip_prefix ps cs else None)"

text \<open>
  The texts that the linker's regular expressions scan are Python \<open>str\<close> values:
  sequences of Unicode characters, which the \<open>re\<close> module and \<open>str.upper\<close> classify and
  map by the Unicode database of the interpreter. Such a text is a list over a type of
  characters, and the database is a parameter of the model, a table that gives
  \<^item> the character of an ASCII code, for the literals of a pattern;
  \<^item> the classes \<open>\w\<close>, \<open>\d\<close> and \<open>\s\<close>;
  \<^item> whether a character of a pattern matches a character of the text under
    \<open>re.IGNORECASE\<close>;
  \<^item> the upper-case form of a character, which can be more than one character.
\<close>

record 'c chars =
  ascii :: "char \<Rightarrow> 'c"
  word_char :: "'c \<Rightarrow> bool"
  digit_char :: "'c \<Rightarrow> bool"
  space_char :: "'c \<Rightarrow> bool"
  same_ci :: "'c \<Rightarrow> 'c \<Rightarrow> bool"
  upper_of :: "'c \<Rightarrow> 'c list"

text \<open>The table of the ASCII classes above, on \<^typ>\<open>char\<close>: the classes of the workers'
  pattern, and Python's on ASCII text.\<close>

definition ascii_chars :: "char chars" where
  "ascii_chars =
     \<lparr>ascii = (\<lambda>c. c),
      word_char = is_word,
      digit_char = is_digit,
      space_char = is_space,
      same_ci = (\<lambda>p c. lower_char p = lower_char c),
      upper_of = (\<lambda>c. [upper_char c])\<rparr>"

text \<open>A literal of a pattern, and \<open>str.upper()\<close>.\<close>

definition lit :: "'c chars \<Rightarrow> string \<Rightarrow> 'c list" where
  "lit U s = map (ascii U) s"

definition py_upper :: "'c chars \<Rightarrow> 'c list \<Rightarrow> 'c list" where
  "py_upper U s = concat (map (upper_of U) s)"

text \<open>Strip a prefix, ignoring case (\<open>re.IGNORECASE\<close>, \<open>/i\<close>).\<close>

fun strip_prefix_ci :: "'c chars \<Rightarrow> 'c list \<Rightarrow> 'c list \<Rightarrow> 'c list option" where
  "strip_prefix_ci U [] s = Some s"
| "strip_prefix_ci U (p # ps) [] = None"
| "strip_prefix_ci U (p # ps) (c # cs) =
     (if same_ci U p c then strip_prefix_ci U ps cs else None)"

text \<open>The substring test \<open>needle in hay\<close>.\<close>

fun contains :: "string \<Rightarrow> string \<Rightarrow> bool" where
  "contains needle [] = (needle = [])"
| "contains needle (c # cs) = (strip_prefix needle (c # cs) \<noteq> None \<or> contains needle cs)"

section \<open>The linker script: record ids\<close>

text \<open>
  \<^verbatim>\<open>
  def ensure_uuid_hyphens(id32: str) -> str:
      s = id32.replace("-", "")
      if len(s) != 32 or not re.fullmatch(r"[0-9a-fA-F]{32}", s):
          return id32
      return f"{s[0:8]}-{s[8:12]}-{s[12:16]}-{s[16:20]}-{s[20:32]}"
  \<close>
\<close>

definition ensure_uuid_hyphens :: "string \<Rightarrow> string" where
  "ensure_uuid_hyphens id32 =
     (let s = remove_char (CHR ''-'') id32 in
      if length s \<noteq> 32 \<or> \<not> (length s = 32 \<and> list_all is_hex s) then id32
      else slice 0 8 s @ ''-'' @ slice 8 12 s @ ''-'' @ slice 12 16 s @ ''-''
           @ slice 16 20 s @ ''-'' @ slice 20 32 s)"

text \<open>
  The words of the specification, to compare with: a text cut into groups of the given
  sizes, the groups joined by hyphens.
\<close>

fun groups :: "nat list \<Rightarrow> 'a list \<Rightarrow> 'a list list" where
  "groups [] s = []"
| "groups (n # ns) s = take n s # groups ns (drop n s)"

fun join_hyphen :: "string list \<Rightarrow> string" where
  "join_hyphen [] = []"
| "join_hyphen [g] = g"
| "join_hyphen (g # gs) = g @ ''-'' @ join_hyphen gs"

definition hyphenation_8_4_4_4_12 :: "string \<Rightarrow> string" where
  "hyphenation_8_4_4_4_12 s = join_hyphen (groups [8, 4, 4, 4, 12] s)"

definition is_hex32 :: "string \<Rightarrow> bool" where
  "is_hex32 s = (length s = 32 \<and> list_all is_hex s)"

section \<open>The linker script: identifier extraction\<close>

text \<open>
  \<^verbatim>\<open>
  TASK_PREFIX = os.getenv("TASK_PREFIX", "TASK")
  TASK_REGEX = re.compile(rf"\b{re.escape(TASK_PREFIX)}-\d+\b", re.IGNORECASE)
  NOTION_URL_REGEX = re.compile(r"https?://(www\.)?notion\.so/[^\s)>\]]+")
  \<close>
  A pattern is modelled by the function that tries it at one position: given whether the
  character before the position is a word character, and the text from the position on,
  it returns the length of the match there, the one the backtracking engine finds first.
  The prefix is a parameter of the model, since the script reads it from the environment,
  and so is the table \<open>U\<close> of the characters.

  \<open>\b\<close> holds between a word character and a non-word character; the two ends of the
  text count as non-word.
\<close>

definition boundary :: "'c chars \<Rightarrow> bool \<Rightarrow> 'c list \<Rightarrow> bool" where
  "boundary U prev_word rest =
     (prev_word \<noteq> (case rest of [] \<Rightarrow> False | c # _ \<Rightarrow> word_char U c))"

text \<open>
  \<open>\d+\b\<close>: the engine takes the longest run of digits first and gives digits back one
  at a time until \<open>\b\<close> holds; the result is the number of digits kept.
\<close>

definition digits_len :: "'c chars \<Rightarrow> 'c list \<Rightarrow> nat option" where
  "digits_len U r =
     find (\<lambda>k. boundary U True (drop k r))
       (rev [1 ..< Suc (length (takeWhile (digit_char U) r))])"

text \<open>\<open>TASK_REGEX\<close> at one position; \<open>re.escape\<close> makes the prefix a literal.\<close>

definition task_len :: "'c chars \<Rightarrow> 'c list \<Rightarrow> bool \<Rightarrow> 'c list \<Rightarrow> nat option" where
  "task_len U prefix prev_word rest =
     (if \<not> boundary U prev_word rest then None
      else case strip_prefix_ci U prefix rest of
        None \<Rightarrow> None
      | Some r1 \<Rightarrow>
          (case strip_prefix (lit U ''-'') r1 of
             None \<Rightarrow> None
           | Some r2 \<Rightarrow> map_option (\<lambda>k. length prefix + 1 + k) (digits_len U r2)))"

text \<open>\<open>[^\s)>\]]\<close>\<close>

definition link_char :: "'c chars \<Rightarrow> 'c \<Rightarrow> bool" where
  "link_char U c =
     (\<not> space_char U c \<and> c \<noteq> ascii U (CHR '')'') \<and> c \<noteq> ascii U (CHR ''>'')
      \<and> c \<noteq> ascii U (CHR '']''))"

text \<open>\<open>notion\.so/[^\s)>\]]+\<close>: the class is greedy and nothing follows it.\<close>

definition link_tail :: "'c chars \<Rightarrow> 'c list \<Rightarrow> nat option" where
  "link_tail U r =
     (case strip_prefix (lit U ''notion.so/'') r of
        None \<Rightarrow> None
      | Some r' \<Rightarrow>
          (let n = length (takeWhile (link_char U) r') in if n = 0 then None else Some (10 + n)))"

text \<open>\<open>(www\.)?\<close> and the rest: with the group first, without it when that fails.\<close>

definition link_host :: "'c chars \<Rightarrow> 'c list \<Rightarrow> nat option" where
  "link_host U r =
     (case (case strip_prefix (lit U ''www.'') r of
              None \<Rightarrow> None
            | Some r' \<Rightarrow> map_option (\<lambda>n. 4 + n) (link_tail U r')) of
        Some n \<Rightarrow> Some n
      | None \<Rightarrow> link_tail U r)"

definition link_after_scheme :: "'c chars \<Rightarrow> 'c list \<Rightarrow> nat option" where
  "link_after_scheme U r =
     (case strip_prefix (lit U ''://'') r of
        None \<Rightarrow> None
      | Some r' \<Rightarrow> map_option (\<lambda>n. 3 + n) (link_host U r'))"

text \<open>\<open>NOTION_URL_REGEX\<close> at one position: \<open>s?\<close> is tried with the letter first. The
  pattern has no \<open>\b\<close>, so the character before the position is not looked at.\<close>

definition link_len :: "'c chars \<Rightarrow> bool \<Rightarrow> 'c list \<Rightarrow> nat option" where
  "link_len U prev_word rest =
     (case strip_prefix (lit U ''http'') rest of
        None \<Rightarrow> None
      | Some r \<Rightarrow>
          (case (case strip_prefix (lit U ''s'') r of
                   None \<Rightarrow> None
                 | Some r' \<Rightarrow> map_option (\<lambda>n. 5 + n) (link_after_scheme U r')) of
             Some n \<Rightarrow> Some n
           | None \<Rightarrow> map_option (\<lambda>n. 4 + n) (link_after_scheme U r)))"

text \<open>
  \<open>pattern.finditer(text)\<close>: the matches from left to right, none overlapping another.
  After a match the scan goes on behind it. Neither pattern matches the empty text; the
  engine would yield an empty match and move on by one character, and so does the model.
\<close>

function finditer ::
  "'c chars \<Rightarrow> (bool \<Rightarrow> 'c list \<Rightarrow> nat option) \<Rightarrow> bool \<Rightarrow> 'c list \<Rightarrow> 'c list list" where
  "finditer U m prev_word [] = (case m prev_word [] of None \<Rightarrow> [] | Some n \<Rightarrow> [[]])"
| "finditer U m prev_word (c # cs) =
     (case m prev_word (c # cs) of
        None \<Rightarrow> finditer U m (word_char U c) cs
      | Some n \<Rightarrow>
          if n = 0 then [] # finditer U m (word_char U c) cs
          else take n (c # cs)
               # finditer U m (word_char U (last (take n (c # cs)))) (drop n (c # cs)))"
  by pat_completeness auto
termination
  by (relation "measure (\<lambda>(U, m, w, s). length s)") auto

text \<open>\<open>x or ""\<close> for an optional string.\<close>

definition or_empty :: "'a list option \<Rightarrow> 'a list" where
  "or_empty s = (case s of None \<Rightarrow> [] | Some t \<Rightarrow> t)"

text \<open>
  \<^verbatim>\<open>
  def parse_task_refs(title: str, body: str, branch: Optional[str]) -> Dict[str, List[str]]:
      text = "\n".join([title, body or "", branch or ""])
      ids = sorted(set(m.group(0).upper() for m in TASK_REGEX.finditer(text)))
      notion_links = sorted(set(NOTION_URL_REGEX.findall(text)))
      links = sorted(set(m.group(0) if hasattr(m, "group") else m
                         for m in re.finditer(NOTION_URL_REGEX, text)))
      return {"task_ids": ids, "notion_links": links}
  \<close>
  The local \<open>notion_links\<close> is computed and never read; the dictionary returned has the two
  keys that are the fields of the record. \<open>sorted(set(xs))\<close> is the list of the distinct
  elements in increasing order; Python compares strings character by character, by
  their code points: the lexicographic order on lists, over the order of the characters.
\<close>

record 'c task_refs =
  task_ids :: "'c list list"
  notion_links :: "'c list list"

definition sorted_set :: "'a::linorder list \<Rightarrow> 'a list" where
  "sorted_set xs = sort (remdups xs)"

definition parse_task_refs ::
  "'c::linorder chars \<Rightarrow> 'c list \<Rightarrow> 'c list \<Rightarrow> 'c list option \<Rightarrow> 'c list option
     \<Rightarrow> 'c task_refs" where
  "parse_task_refs U TASK_PREFIX title body branch =
     (let text = title @ lit U [CHR 10] @ or_empty body @ lit U [CHR 10] @ or_empty branch;
          ids = sorted_set (map (py_upper U) (finditer U (task_len U TASK_PREFIX) False text));
          links = sorted_set (finditer U (link_len U) False text)
      in \<lparr>task_ids = ids, notion_links = links\<rparr>)"

section \<open>The linker script: resolving and merging records\<close>

text \<open>
  \<^verbatim>\<open>
  def page_id_from_notion_url(url: str) -> Optional[str]:
      m = re.search(r"([0-9a-fA-F]{32})(?:\?|#|/|$)", url)
      if not m:
          return None
      return ensure_uuid_hyphens(m.group(1).lower())
  \<close>
  \<open>$\<close> holds at the end of the text and before a line break that ends the text.
\<close>

definition id_terminator :: "string \<Rightarrow> bool" where
  "id_terminator rest =
     (case rest of
        [] \<Rightarrow> True
      | c # cs \<Rightarrow> c = CHR ''?'' \<or> c = CHR ''#'' \<or> c = CHR ''/'' \<or> (c = CHR 10 \<and> cs = []))"

definition hex32_at :: "string \<Rightarrow> bool" where
  "hex32_at s = (32 \<le> length s \<and> list_all is_hex (take 32 s) \<and> id_terminator (drop 32 s))"

text \<open>\<open>re.search\<close>: the match at the leftmost position that has one; the result is group 1.\<close>

fun search_hex32 :: "string \<Rightarrow> string option" where
  "search_hex32 [] = None"
| "search_hex32 (c # cs) =
     (if hex32_at (c # cs) then Some (take 32 (c # cs)) else search_hex32 cs)"

definition page_id_from_notion_url :: "string \<Rightarrow> string option" where
  "page_id_from_notion_url url =
     (case search_hex32 url of
        None \<Rightarrow> None
      | Some g \<Rightarrow> Some (ensure_uuid_hyphens (lower g)))"

text \<open>
  The words of the specification, to compare with: a canonical record id is 32
  hexadecimal digits in lower case, hyphenated into the groups 8-4-4-4-12. It is the
  form in which the workspace API returns the \<open>id\<close> of a page.
\<close>

definition canonical_id :: "string \<Rightarrow> bool" where
  "canonical_id pid =
     (is_hex32 (remove_char (CHR ''-'') pid)
      \<and> lower pid = pid
      \<and> pid = hyphenation_8_4_4_4_12 (remove_char (CHR ''-'') pid))"

text \<open>
  \<^verbatim>\<open>
  def notion_search_page(notion_token: str, query: str) -> Optional[Tuple[str, str]]:
      resp = requests.post(f"{NOTION_API}/search", headers=..., json={"query": query, ...},
                           timeout=20)
      resp.raise_for_status()
      results = resp.json().get("results", [])
      if not results:
          return None
      page = results[0]
      page_id = page.get("id")
      public_url = f"https://www.notion.so/{page_id.replace('-', '')}"
      return page_id, public_url
  \<close>
  The workspace is outside the program. Its answer to a search is a value of
  \<open>search_response\<close>: the call fails (no connection, a timeout, or a status that
  \<open>raise_for_status\<close> rejects), or it returns the list of results, each with its \<open>id\<close> when
  it has one. The exceptions that end the script are values of \<open>py_error\<close>.
\<close>

datatype py_error = RequestError | AttributeError

datatype search_response = SearchFailed | SearchResults "string option list"

definition public_url :: "string \<Rightarrow> string" where
  "public_url page_id = ''https://www.notion.so/'' @ remove_char (CHR ''-'') page_id"

definition notion_search_page :: "search_response \<Rightarrow> py_error + (string \<times> string) option" where
  "notion_search_page resp =
     (case resp of
        SearchFailed \<Rightarrow> Inl RequestError
      | SearchResults results \<Rightarrow>
          (case results of
             [] \<Rightarrow> Inr None
           | page # _ \<Rightarrow>
               (case page of
                  None \<Rightarrow> Inl AttributeError
                | Some page_id \<Rightarrow> Inr (Some (page_id, public_url page_id)))))"

text \<open>
  The part of \<open>main\<close> that builds the list of pages:
  \<^verbatim>\<open>
      pages: List[Tuple[str, str]] = []  # (page_id, page_url)
      for link in notion_links:
          pid = page_id_from_notion_url(link)
          if pid:
              pages.append((pid, link))
      for tid in task_ids:
          found = notion_search_page(notion_token, tid)
          if found:
              pages.append(found)
      # De-duplicate by page_id
      uniq: Dict[str, str] = {}
      for pid, url in pages:
          uniq[pid] = url
      pages = [(pid, url) for pid, url in uniq.items()]
  \<close>
  \<open>notion\<close> is the workspace: the response it gives to the search for a query.
\<close>

fun link_pages :: "string list \<Rightarrow> (string \<times> string) list" where
  "link_pages [] = []"
| "link_pages (link # links) =
     (case page_id_from_notion_url link of
        None \<Rightarrow> link_pages links
      | Some pid \<Rightarrow> if pid \<noteq> [] then (pid, link) # link_pages links else link_pages links)"

fun search_pages :: "(string \<Rightarrow> search_response) \<Rightarrow> string list \<Rightarrow> py_error + (string \<times> string) list" where
  "search_pages notion [] = Inr []"
| "search_pages notion (tid # tids) =
     (case notion_search_page (notion tid) of
        Inl e \<Rightarrow> Inl e
      | Inr found \<Rightarrow>
          (case search_pages notion tids of
             Inl e \<Rightarrow> Inl e
           | Inr rest \<Rightarrow> Inr (case found of None \<Rightarrow> rest | Some page \<Rightarrow> page # rest)))"

text \<open>
  A Python dictionary keeps its keys in the order of their first insertion, and an
  assignment to a key that is present replaces the value where it stands: this is
  \<^const>\<open>AList.update\<close> on the list of items.
\<close>

definition dedupe_pages :: "(string \<times> string) list \<Rightarrow> (string \<times> string) list" where
  "dedupe_pages pages = fold (\<lambda>(pid, url) uniq. AList.update pid url uniq) pages []"

definition resolve_pages ::
  "(string \<Rightarrow> search_response) \<Rightarrow> char task_refs \<Rightarrow> py_error + (string \<times> string) list" where
  "resolve_pages notion refs =
     (case search_pages notion (task_ids refs) of
        Inl e \<Rightarrow> Inl e
      | Inr found \<Rightarrow> Inr (dedupe_pages (link_pages (notion_links refs) @ found)))"

section \<open>The linker script: annotating a record\<close>

text \<open>
  The children of a page are blocks as the workspace API returns them: an object whose
  \<open>type\<close> names the key that holds its content. A bulleted list item holds its
  \<open>rich_text\<close> list when it has one; a rich-text item is modelled by the \<open>content\<close> of its
  \<open>text\<close> object, when it has one, and the address it links to.
\<close>

datatype rich = Rich (content: "string option") (href: "string option")

datatype block = Bulleted_list_item "rich list option" | Other_block string

text \<open>
  \<^verbatim>\<open>
  def notion_get_children(notion_token: str, page_id: str) -> List[dict]:
      resp = requests.get(f"{NOTION_API}/blocks/{page_id}/children?page_size=100", ...)
      if resp.status_code == 200:
          return resp.json().get("results", [])
      return []
  \<close>
  The answer of the workspace is a value: the request raises, or it returns a status and
  a body with its \<open>results\<close>, when the body has that key.
\<close>

datatype children_response = GetFailed | GetResponse nat "block list option"

definition notion_get_children :: "children_response \<Rightarrow> py_error + block list" where
  "notion_get_children resp =
     (case resp of
        GetFailed \<Rightarrow> Inl RequestError
      | GetResponse status_code results \<Rightarrow>
          if status_code = 200 then Inr (case results of None \<Rightarrow> [] | Some bs \<Rightarrow> bs)
          else Inr [])"

text \<open>
  \<^verbatim>\<open>
  def notion_append_pr_bullet(notion_token: str, page_id: str, pr_url: str):
      # Dedup: if a bullet already contains the PR URL, skip
      for b in notion_get_children(notion_token, page_id):
          if b.get("type") == "bulleted_list_item":
              texts = b["bulleted_list_item"].get("rich_text", [])
              if any(pr_url in (t.get("text", {}).get("content", "") or "") for t in texts):
                  return  # already present
      payload = {"children": [{"object": "block", "type": "bulleted_list_item",
          "bulleted_list_item": {"rich_text": [{"type": "text",
              "text": {"content": f"PR: {pr_url}", "link": {"url": pr_url}}}]}}]}
      resp = requests.patch(f"{NOTION_API}/blocks/{page_id}/children", ...)
      # If fails, don't crash the workflow; just log
      if resp.status_code >= 300:
          print(f"::warning:: Failed to append PR link to Notion page ...")
  \<close>
\<close>

definition mentions :: "string \<Rightarrow> block \<Rightarrow> bool" where
  "mentions pr_url b =
     (case b of
        Other_block _ \<Rightarrow> False
      | Bulleted_list_item rich_text \<Rightarrow>
          list_ex (\<lambda>t. contains pr_url (or_empty (content t)))
            (case rich_text of None \<Rightarrow> [] | Some texts \<Rightarrow> texts))"

definition pr_bullet :: "string \<Rightarrow> block" where
  "pr_bullet pr_url = Bulleted_list_item (Some [Rich (Some (''PR: '' @ pr_url)) (Some pr_url)])"

datatype patch_response = PatchFailed | PatchResponse nat

text \<open>
  What a call did: it returned at a bullet that mentions the address, or it sent the
  children of its payload to the workspace, with or without the warning that follows a
  status of 300 or more.
\<close>

datatype append_outcome = AlreadyPresent | Appended "block list" | AppendWarned "block list"

definition notion_append_pr_bullet ::
  "children_response \<Rightarrow> patch_response \<Rightarrow> string \<Rightarrow> py_error + append_outcome" where
  "notion_append_pr_bullet get_resp patch_resp pr_url =
     (case notion_get_children get_resp of
        Inl e \<Rightarrow> Inl e
      | Inr children \<Rightarrow>
          if list_ex (mentions pr_url) children then Inr AlreadyPresent
          else (case patch_resp of
                  PatchFailed \<Rightarrow> Inl RequestError
                | PatchResponse status_code \<Rightarrow>
                    if status_code \<ge> 300 then Inr (AppendWarned [pr_bullet pr_url])
                    else Inr (Appended [pr_bullet pr_url])))"

section \<open>The linker script: annotation and comment\<close>

text \<open>
  The rest of \<open>main\<close>, after the pages are merged:
  \<^verbatim>\<open>
      for pid, _ in pages:
          notion_append_pr_bullet(notion_token, pid, pr_html_url)
      if pages:
          lines = ["Linked Notion Tasks:"]
          for _, url in pages:
              lines.append(f"- {url}")
          gh_post_pr_comment(gh_token, repo_full, pr_number, "\n".join(lines))
  \<close>
  The workspace answers the read and the write for each page; an exception of a request
  ends the script.
\<close>

fun annotate_all ::
  "(string \<Rightarrow> children_response) \<Rightarrow> (string \<Rightarrow> patch_response) \<Rightarrow> string
     \<Rightarrow> (string \<times> string) list \<Rightarrow> py_error + (string \<times> append_outcome) list" where
  "annotate_all reads writes pr_html_url [] = Inr []"
| "annotate_all reads writes pr_html_url ((pid, page_url) # pages) =
     (case notion_append_pr_bullet (reads pid) (writes pid) pr_html_url of
        Inl e \<Rightarrow> Inl e
      | Inr outcome \<Rightarrow>
          (case annotate_all reads writes pr_html_url pages of
             Inl e \<Rightarrow> Inl e
           | Inr outcomes \<Rightarrow> Inr ((pid, outcome) # outcomes)))"

fun join_lines :: "string list \<Rightarrow> string" where
  "join_lines [] = []"
| "join_lines [l] = l"
| "join_lines (l # ls) = l @ [CHR 10] @ join_lines ls"

definition comment_body :: "(string \<times> string) list \<Rightarrow> string" where
  "comment_body pages =
     join_lines (''Linked Notion Tasks:'' # map (\<lambda>(pid, page_url). ''- '' @ page_url) pages)"

text \<open>
  \<^verbatim>\<open>
  def gh_post_pr_comment(token: str, repo_full: str, pr_number: int, body: str):
      resp = requests.post(f"{GITHUB_API}/repos/{repo_full}/issues/{pr_number}/comments", ...)
      if resp.status_code >= 300:
          print(f"::warning:: Failed to post PR comment: {resp.text}")
  \<close>
  The run of the script from the extracted references on: the pages annotated, each with
  what the call did, and the comment posted, when there is one.
\<close>

datatype comment_response = CommentFailed | CommentResponse nat

record linker_run =
  annotated :: "(string \<times> append_outcome) list"
  commented :: "string option"

definition link_pr ::
  "(string \<Rightarrow> search_response) \<Rightarrow> (string \<Rightarrow> children_response) \<Rightarrow> (string \<Rightarrow> patch_response)
     \<Rightarrow> comment_response \<Rightarrow> string \<Rightarrow> char task_refs \<Rightarrow> py_error + linker_run" where
  "link_pr notion reads writes github pr_html_url refs =
     (case resolve_pages notion refs of
        Inl e \<Rightarrow> Inl e
      | Inr pages \<Rightarrow>
          (case annotate_all reads writes pr_html_url pages of
             Inl e \<Rightarrow> Inl e
           | Inr outcomes \<Rightarrow>
               if pages \<noteq> [] then
                 (case github of
                    CommentFailed \<Rightarrow> Inl RequestError
                  | CommentResponse status_code \<Rightarrow>
                      Inr \<lparr>annotated = outcomes, commented = Some (comment_body pages)\<rparr>)
               else Inr \<lparr>annotated = outcomes, commented = None\<rparr>))"

section \<open>The workers: values of the platform\<close>

text \<open>
  The workers run on a JavaScript platform. What they are given by it is modelled as
  data: JSON values, the inbound request, the environment bindings, and a \<open>world\<close> that
  holds the functions the platform and the network provide (the keyed digests of
  \<open>crypto.subtle\<close>, \<open>JSON.parse\<close>, the conversion of a value to a string, and the response
  of a remote endpoint to an outbound request).
\<close>

datatype json_value =
    JNull
  | JBool bool
  | JNum int
  | JStr string
  | JArr "json_value list"
  | JObj "(string \<times> json_value) list"

text \<open>
  JavaScript's \<open>undefined\<close> is \<open>None\<close>. A value is falsy when it is \<open>undefined\<close>, \<open>null\<close>,
  \<open>false\<close>, zero or the empty string.
\<close>

definition truthy :: "json_value \<Rightarrow> bool" where
  "truthy v =
     (case v of
        JNull \<Rightarrow> False
      | JBool b \<Rightarrow> b
      | JNum n \<Rightarrow> n \<noteq> 0
      | JStr s \<Rightarrow> s \<noteq> []
      | JArr _ \<Rightarrow> True
      | JObj _ \<Rightarrow> True)"

text \<open>\<open>x?.name\<close>, for the names the workers read (none is a built-in property).\<close>

fun member_of :: "string \<Rightarrow> json_value option \<Rightarrow> json_value option" where
  "member_of name (Some (JObj members)) = map_of members name"
| "member_of name _ = None"

text \<open>\<open>x?.[0]\<close>\<close>

fun index0 :: "json_value option \<Rightarrow> json_value option" where
  "index0 (Some (JArr (v # _))) = Some v"
| "index0 (Some (JObj members)) = map_of members ''0''"
| "index0 (Some (JStr (c # _))) = Some (JStr [c])"
| "index0 _ = None"

text \<open>\<open>x || d\<close>, where \<open>d\<close> is a value\<close>

definition or_else :: "json_value option \<Rightarrow> json_value \<Rightarrow> json_value" where
  "or_else x d = (case x of None \<Rightarrow> d | Some v \<Rightarrow> if truthy v then v else d)"

text \<open>\<open>x ?? d\<close>\<close>

definition nullish :: "json_value \<Rightarrow> json_value \<Rightarrow> json_value" where
  "nullish v d = (case v of JNull \<Rightarrow> d | _ \<Rightarrow> v)"

text \<open>An environment binding is a string or absent; \<open>env.X || d\<close> and the truth of \<open>env.X\<close>.\<close>

definition is_set :: "string option \<Rightarrow> bool" where
  "is_set x = (case x of None \<Rightarrow> False | Some s \<Rightarrow> s \<noteq> [])"

definition str_or :: "string option \<Rightarrow> string \<Rightarrow> string" where
  "str_or x d = (case x of None \<Rightarrow> d | Some s \<Rightarrow> if s \<noteq> [] then s else d)"

record env =
  SLACK_WEBHOOK_URL :: "string option"
  NOTION_TOKEN :: "string option"
  EXPO_WEBHOOK_SECRET :: "string option"
  DISPATCH_TO_GITHUB :: "string option"
  GH_OWNER :: "string option"
  GH_REPO :: "string option"
  GH_REPO_DISPATCH_TOKEN :: "string option"

text \<open>The inbound request: \<open>req_header\<close> is \<open>request.headers.get\<close>.\<close>

record request =
  req_method :: string
  req_pathname :: string
  req_header :: "string \<Rightarrow> string option"
  req_body :: string

text \<open>An outbound \<open>fetch\<close>; the method is always \<open>POST\<close>. The body is the value that
  \<open>JSON.stringify\<close> serialises.\<close>

record outbound =
  out_url :: string
  out_headers :: "(string \<times> string) list"
  out_payload :: json_value

text \<open>\<open>fetch\<close> rejects (no connection), or resolves to a response with a status and a
  body text.\<close>

datatype fetch_result = Fetch_failed | Fetched nat string

definition status_ok :: "nat \<Rightarrow> bool" where
  "status_ok st = (200 \<le> st \<and> st \<le> 299)"

record world =
  hmac_sha1 :: "string \<Rightarrow> string \<Rightarrow> 8 word list"
  hmac_sha256 :: "string \<Rightarrow> string \<Rightarrow> 8 word list"
  json_parse :: "string \<Rightarrow> json_value option"
  js_string :: "json_value \<Rightarrow> string"
  remote :: "outbound \<Rightarrow> fetch_result"

text \<open>A value inside a template literal: a string as it is, any other value as the
  platform converts it.\<close>

definition to_str :: "world \<Rightarrow> json_value \<Rightarrow> string" where
  "to_str w v = (case v of JStr s \<Rightarrow> s | _ \<Rightarrow> js_string w v)"

text \<open>
  What a handler did besides answering, in order: it parsed the body as JSON, and it
  called the workspace search, the repository dispatch or the chat hook. Logging to the
  console is not recorded.
\<close>

datatype event =
    Parsed_body
  | Notion_search outbound
  | Github_dispatch outbound
  | Slack_post outbound

datatype js_error = TypeError | RangeError | NetworkError

record response =
  resp_status :: nat
  resp_body :: "json_value option"

text \<open>
  \<open>new Response(body, {status})\<close> throws a \<open>RangeError\<close> for a status outside 200 to 599 and
  a \<open>TypeError\<close> for a body with one of the statuses that carry none.
  \<^verbatim>\<open>
  function json(obj: unknown, status = 200): Response {
    return new Response(JSON.stringify(obj), { status, headers: {...} });
  }
  \<close>
\<close>

definition new_response :: "json_value option \<Rightarrow> nat \<Rightarrow> js_error + response" where
  "new_response b st =
     (if st < 200 \<or> 599 < st then Inl RangeError
      else if b \<noteq> None \<and> (st = 204 \<or> st = 205 \<or> st = 304) then Inl TypeError
      else Inr \<lparr>resp_status = st, resp_body = b\<rparr>)"

definition json :: "json_value \<Rightarrow> nat \<Rightarrow> js_error + response" where
  "json obj st = new_response (Some obj) st"

section \<open>The workers: signature verification\<close>

text \<open>\<open>s.split(sep)\<close> for a one-character separator, and \<open>xs[i]\<close>, which is \<open>undefined\<close>
  beyond the end.\<close>

fun split_on :: "char \<Rightarrow> string \<Rightarrow> string list" where
  "split_on sep [] = [[]]"
| "split_on sep (c # cs) =
     (if c = sep then [] # split_on sep cs
      else (case split_on sep cs of
              [] \<Rightarrow> [[c]]
            | part # parts \<Rightarrow> (c # part) # parts))"

definition nth_opt :: "'a list \<Rightarrow> nat \<Rightarrow> 'a option" where
  "nth_opt xs i = (if i < length xs then Some (xs ! i) else None)"

text \<open>\<open>header.includes("=") ? header.split("=")[1] : header\<close>\<close>

definition provided_of :: "string \<Rightarrow> string option" where
  "provided_of hdr =
     (if CHR ''='' \<in> set hdr then nth_opt (split_on (CHR ''='') hdr) 1 else Some hdr)"

text \<open>
  \<^verbatim>\<open>
  function timingSafeEqualB64(a: string, b: string): boolean {
    if (a.length !== b.length) return false;
    let r = 0;
    for (let i = 0; i < a.length; i++) r |= a.charCodeAt(i) ^ b.charCodeAt(i);
    return r === 0;
  }
  \<close>
  The bitwise operators work on 32-bit integers. \<open>timingSafeEq\<close> of the extended worker
  is the same function.
\<close>

definition timingSafeEqualB64 :: "string \<Rightarrow> string \<Rightarrow> bool" where
  "timingSafeEqualB64 a b =
     (if length a \<noteq> length b then False
      else fold (\<lambda>(x, y) r. r OR (of_nat (code x) XOR of_nat (code y))) (zip a b) (0 :: 32 word)
           = 0)"

definition timingSafeEq :: "string \<Rightarrow> string \<Rightarrow> bool" where
  "timingSafeEq a b = timingSafeEqualB64 a b"

text \<open>\<open>btoa(String.fromCharCode(...bytes))\<close>: base64 with padding.\<close>

definition b64_digit :: "nat \<Rightarrow> char" where
  "b64_digit i =
     (''ABCDEFGHIJKLMNOPQRSTUVWXYZabcdefghijklmnopqrstuvwxyz0123456789+/'') ! (i mod 64)"

fun btoa :: "8 word list \<Rightarrow> string" where
  "btoa [] = []"
| "btoa [a] =
     [b64_digit (unat a div 4), b64_digit (unat a mod 4 * 16), CHR ''='', CHR ''='']"
| "btoa [a, b] =
     [b64_digit (unat a div 4), b64_digit (unat a mod 4 * 16 + unat b div 16),
      b64_digit (unat b mod 16 * 4), CHR ''='']"
| "btoa (a # b # c # rest) =
     [b64_digit (unat a div 4), b64_digit (unat a mod 4 * 16 + unat b div 16),
      b64_digit (unat b mod 16 * 4 + unat c div 64), b64_digit (unat c mod 64)] @ btoa rest"

definition bytesToB64 :: "8 word list \<Rightarrow> string" where
  "bytesToB64 bytes = btoa bytes"

text \<open>\<open>Array.from(bytes).map(b => b.toString(16).padStart(2, '0')).join('')\<close>\<close>

definition hex_digit :: "nat \<Rightarrow> char" where
  "hex_digit i = (''0123456789abcdef'') ! (i mod 16)"

definition bytesToHex :: "8 word list \<Rightarrow> string" where
  "bytesToHex bytes = concat (map (\<lambda>b. [hex_digit (unat b div 16), hex_digit (unat b mod 16)]) bytes)"

text \<open>
  \<^verbatim>\<open>
  async function verifyHmacSha1Base64(bodyText, secret, header): Promise<boolean> {
    try {
      const provided = header.includes("=") ? header.split("=")[1] : header;
      const key = await crypto.subtle.importKey("raw", ..., { name: "HMAC", hash: "SHA-1" }, ...);
      const sig = await crypto.subtle.sign("HMAC", key, new TextEncoder().encode(bodyText));
      const expected = btoa(String.fromCharCode(...new Uint8Array(sig)));
      return timingSafeEqualB64(provided, expected);
    } catch {
      return false;
    }
  }
  \<close>
  An \<open>undefined\<close> value for \<open>provided\<close> would throw in the comparison and be caught.
\<close>

definition verifyHmacSha1Base64 :: "world \<Rightarrow> string \<Rightarrow> string \<Rightarrow> string \<Rightarrow> bool" where
  "verifyHmacSha1Base64 w bodyText secret hdr =
     (case provided_of hdr of
        None \<Rightarrow> False
      | Some provided \<Rightarrow> timingSafeEqualB64 provided (btoa (hmac_sha1 w secret bodyText)))"

text \<open>
  The extended worker computes four expected values,
  \<^verbatim>\<open>
  return { sha1: { b64: bytesToB64(sig1), hex: bytesToHex(sig1) },
           sha256: { b64: bytesToB64(sig256), hex: bytesToHex(sig256) } };
  \<close>
  and compares them in this order, stopping at the first that matches:
  \<^verbatim>\<open>
  const ok =
    timingSafeEq(provided, exp.sha1.b64) ||
    timingSafeEq(provided, exp.sha1.hex) ||
    timingSafeEq(provided, exp.sha256.b64) ||
    timingSafeEq(provided, exp.sha256.hex);
  \<close>
  \<open>signature_match\<close> returns the comparisons made, in order, with the value of \<open>ok\<close>.
\<close>

record hmacs =
  sha1_b64 :: string
  sha1_hex :: string
  sha256_b64 :: string
  sha256_hex :: string

definition computeHmacs :: "world \<Rightarrow> string \<Rightarrow> string \<Rightarrow> hmacs" where
  "computeHmacs w body_text secret =
     (let sig1 = hmac_sha1 w secret body_text;
          sig256 = hmac_sha256 w secret body_text
      in \<lparr>sha1_b64 = bytesToB64 sig1, sha1_hex = bytesToHex sig1,
          sha256_b64 = bytesToB64 sig256, sha256_hex = bytesToHex sig256\<rparr>)"

datatype digest = Sha1_b64 | Sha1_hex | Sha256_b64 | Sha256_hex

definition signature_match :: "string \<Rightarrow> hmacs \<Rightarrow> digest list \<times> bool" where
  "signature_match provided exp =
     (if timingSafeEq provided (sha1_b64 exp) then ([Sha1_b64], True)
      else if timingSafeEq provided (sha1_hex exp) then ([Sha1_b64, Sha1_hex], True)
      else if timingSafeEq provided (sha256_b64 exp) then ([Sha1_b64, Sha1_hex, Sha256_b64], True)
      else ([Sha1_b64, Sha1_hex, Sha256_b64, Sha256_hex], timingSafeEq provided (sha256_hex exp)))"

section \<open>The workers: the task id and the workspace lookup\<close>

text \<open>
  \<^verbatim>\<open>
  const TASK_REGEX = /\b(?:SPR|TASK)-\d+\b/i;
  const idMatch = `${gitRef} ${commitMessage}`.match(TASK_REGEX);
  const taskId = idMatch ? idMatch[0].toUpperCase() : "";
  \<close>
  The alternation tries \<open>SPR\<close> first and \<open>TASK\<close> when the rest of the pattern fails after
  it. \<open>match\<close> with a pattern that has no \<open>g\<close> flag returns the leftmost match. The
  pattern has no \<open>u\<close> flag, so its classes and its \<open>/i\<close> are those of the ASCII table.
\<close>

definition js_task_len :: "bool \<Rightarrow> string \<Rightarrow> nat option" where
  "js_task_len prev_word rest =
     (case task_len ascii_chars ''SPR'' prev_word rest of
        Some n \<Rightarrow> Some n
      | None \<Rightarrow> task_len ascii_chars ''TASK'' prev_word rest)"

fun first_match :: "(bool \<Rightarrow> string \<Rightarrow> nat option) \<Rightarrow> bool \<Rightarrow> string \<Rightarrow> string option" where
  "first_match m prev_word [] = map_option (\<lambda>n. []) (m prev_word [])"
| "first_match m prev_word (c # cs) =
     (case m prev_word (c # cs) of
        Some n \<Rightarrow> Some (take n (c # cs))
      | None \<Rightarrow> first_match m (is_word c) cs)"

definition task_id_of :: "string \<Rightarrow> string" where
  "task_id_of joined =
     (case first_match js_task_len False joined of
        None \<Rightarrow> []
      | Some idMatch \<Rightarrow> upper idMatch)"

text \<open>
  The search request, and what the workers make of the answer:
  \<^verbatim>\<open>
  const pageId = j?.results?.[0]?.id as string | undefined;
  if (pageId) notionUrl = `https://www.notion.so/${pageId.replace(/-/g, "")}`;
  \<close>
  A truthy \<open>id\<close> that is no string has no \<open>replace\<close>; the error is thrown inside the
  \<open>try\<close> block of either worker and caught there, and the address stays empty.
\<close>

definition notion_request :: "string \<Rightarrow> string \<Rightarrow> outbound" where
  "notion_request token taskId =
     \<lparr>out_url = ''https://api.notion.com/v1/search'',
      out_headers = [(''Authorization'', ''Bearer '' @ token),
                     (''Notion-Version'', ''2022-06-28''),
                     (''Content-Type'', ''application/json'')],
      out_payload = JObj [(''query'', JStr taskId),
                          (''filter'', JObj [(''value'', JStr ''page''),
                                             (''property'', JStr ''object'')])]\<rparr>"

definition page_url :: "json_value \<Rightarrow> string" where
  "page_url j =
     (case member_of ''id'' (index0 (member_of ''results'' (Some j))) of
        None \<Rightarrow> []
      | Some pageId \<Rightarrow>
          if truthy pageId then
            (case pageId of
               JStr s \<Rightarrow> ''https://www.notion.so/'' @ remove_char (CHR ''-'') s
             | _ \<Rightarrow> [])
          else [])"

text \<open>
  \<open>src/worker.ts\<close>: the answer is read only when it is \<open>ok\<close>; a rejected \<open>fetch\<close> and a body
  that is no JSON are caught and ignored.
\<close>

definition resolve_notion :: "world \<Rightarrow> env \<Rightarrow> string \<Rightarrow> event list \<times> string" where
  "resolve_notion w e taskId =
     (if taskId \<noteq> [] \<and> is_set (NOTION_TOKEN e) then
        (let rq = notion_request (str_or (NOTION_TOKEN e) []) taskId in
         ([Notion_search rq],
          case remote w rq of
            Fetch_failed \<Rightarrow> []
          | Fetched st txt \<Rightarrow>
              if status_ok st then
                (case json_parse w txt of None \<Rightarrow> [] | Some j \<Rightarrow> page_url j)
              else []))
      else ([], []))"

text \<open>
  The extended worker reads the answer whatever its status,
  \<open>const j = await r.json().catch(() => ({}))\<close>.
\<close>

definition resolve_notion_ext :: "world \<Rightarrow> env \<Rightarrow> string \<Rightarrow> event list \<times> string" where
  "resolve_notion_ext w e taskId =
     (if taskId \<noteq> [] \<and> is_set (NOTION_TOKEN e) then
        (let rq = notion_request (str_or (NOTION_TOKEN e) []) taskId in
         ([Notion_search rq],
          case remote w rq of
            Fetch_failed \<Rightarrow> []
          | Fetched st txt \<Rightarrow>
              page_url (case json_parse w txt of None \<Rightarrow> JObj [] | Some j \<Rightarrow> j)))
      else ([], []))"

section \<open>The workers: dispatch\<close>

text \<open>The fields read from the payload; each is a value, whatever its JSON type.\<close>

record notification =
  n_status :: json_value
  n_buildUrl :: json_value
  n_gitRef :: json_value
  n_commitMessage :: json_value

text \<open>The characters outside ASCII that the messages use, as the UTF-8 bytes sent.\<close>

definition rocket :: string where
  "rocket = [CHR 0xF0, CHR 0x9F, CHR 0x9A, CHR 0x80]"

definition phone :: string where
  "phone = [CHR 0xF0, CHR 0x9F, CHR 0x93, CHR 0xB1]"

definition link_sign :: string where
  "link_sign = [CHR 0xF0, CHR 0x9F, CHR 0x94, CHR 0x97]"

definition memo :: string where
  "memo = [CHR 0xF0, CHR 0x9F, CHR 0x93, CHR 0x9D]"

definition test_tube :: string where
  "test_tube = [CHR 0xF0, CHR 0x9F, CHR 0xA7, CHR 0xAA]"

definition bullet :: string where
  "bullet = [CHR 0xE2, CHR 0x80, CHR 0xA2]"

definition error_body :: "string \<Rightarrow> json_value" where
  "error_body msg = JObj [(''error'', JStr msg)]"

definition failure_body :: "string \<Rightarrow> string \<Rightarrow> json_value" where
  "failure_body msg detail = JObj [(''error'', JStr msg), (''detail'', JStr detail)]"

definition success_body :: "string \<Rightarrow> json_value" where
  "success_body mode = JObj [(''ok'', JBool True), (''mode'', JStr mode)]"

definition github_request :: "env \<Rightarrow> string \<Rightarrow> (string \<times> json_value) list \<Rightarrow> outbound" where
  "github_request e token client_payload =
     \<lparr>out_url = ''https://api.github.com/repos/'' @ str_or (GH_OWNER e) ''SuperAppLabsCo''
                 @ ''/'' @ str_or (GH_REPO e) ''axon-ui'' @ ''/dispatches'',
      out_headers = [(''Authorization'', ''token '' @ token),
                     (''Accept'', ''application/vnd.github+json''),
                     (''Content-Type'', ''application/json'')],
      out_payload = JObj [(''event_type'', JStr ''expo-build''),
                          (''client_payload'', JObj client_payload)]\<rparr>"

definition slack_request :: "string \<Rightarrow> string \<Rightarrow> outbound" where
  "slack_request hook message =
     \<lparr>out_url = hook,
      out_headers = [(''Content-Type'', ''application/json'')],
      out_payload = JObj [(''text'', JStr message)]\<rparr>"

text \<open>
  The re-dispatch, the same in both workers but for the payload:
  \<^verbatim>\<open>
  if (!token) return json({ error: "GH_REPO_DISPATCH_TOKEN missing" }, 500);
  const gh = await fetch(`https://api.github.com/repos/${owner}/${repo}/dispatches`, {...});
  if (!gh.ok) {
    const t = await gh.text();
    return json({ error: "GitHub dispatch failed", detail: t }, gh.status);
  }
  return json({ ok: true, mode: "github" }, 200);
  \<close>
  A \<open>fetch\<close> that rejects is not caught: the handler throws.
\<close>

definition dispatch_github ::
  "world \<Rightarrow> env \<Rightarrow> (string \<times> json_value) list \<Rightarrow> event list \<times> (js_error + response)" where
  "dispatch_github w e client_payload =
     (if \<not> is_set (GH_REPO_DISPATCH_TOKEN e)
      then ([], json (error_body ''GH_REPO_DISPATCH_TOKEN missing'') 500)
      else
        (let rq = github_request e (str_or (GH_REPO_DISPATCH_TOKEN e) []) client_payload in
         ([Github_dispatch rq],
          case remote w rq of
            Fetch_failed \<Rightarrow> Inl NetworkError
          | Fetched st t \<Rightarrow>
              if \<not> status_ok st then json (failure_body ''GitHub dispatch failed'' t) st
              else json (success_body ''github'') 200)))"

text \<open>
  The chat message:
  \<^verbatim>\<open>
  const hook = env.SLACK_WEBHOOK_URL;
  if (!hook) return json({ error: "SLACK_WEBHOOK_URL missing" }, 500);
  ...
  const slack = await fetch(hook, {...body: JSON.stringify({ text })});
  if (!slack.ok) {
    const t = await slack.text();
    return json({ error: "Slack error", detail: t }, 500);
  }
  return json({ ok: true, mode: "slack" }, 200);
  \<close>
\<close>

definition dispatch_slack ::
  "world \<Rightarrow> env \<Rightarrow> string \<Rightarrow> event list \<times> (js_error + response)" where
  "dispatch_slack w e message =
     (if \<not> is_set (SLACK_WEBHOOK_URL e)
      then ([], json (error_body ''SLACK_WEBHOOK_URL missing'') 500)
      else
        (let rq = slack_request (str_or (SLACK_WEBHOOK_URL e) []) message in
         ([Slack_post rq],
          case remote w rq of
            Fetch_failed \<Rightarrow> Inl NetworkError
          | Fetched st t \<Rightarrow>
              if \<not> status_ok st then json (failure_body ''Slack error'' t) 500
              else json (success_body ''slack'') 200)))"

text \<open>\<open>(env.DISPATCH_TO_GITHUB || "").toLowerCase() === "true"\<close>\<close>

definition useDispatch :: "env \<Rightarrow> bool" where
  "useDispatch e = (lower (str_or (DISPATCH_TO_GITHUB e) []) = ''true'')"

text \<open>
  The message of \<open>src/worker.ts\<close>:
  \<^verbatim>\<open>
  let text = `(rocket) *Preview build* ${status}`;
  if (gitRef)        text += ` on \`${gitRef}\``;
  if (buildUrl)      text += `\n(phone) ${buildUrl}`;
  if (taskId)        text += `\n(link) Task: ${taskId}${notionUrl ? ` (bullet) ${notionUrl}` : ""}`;
  if (commitMessage) text += `\n(memo) ${commitMessage}`;
  \<close>
\<close>

definition message_tail :: "world \<Rightarrow> notification \<Rightarrow> string \<Rightarrow> string \<Rightarrow> string" where
  "message_tail w n taskId notionUrl =
     (if truthy (n_gitRef n) then '' on `'' @ to_str w (n_gitRef n) @ ''`'' else [])
     @ (if truthy (n_buildUrl n) then [CHR 10] @ phone @ '' '' @ to_str w (n_buildUrl n) else [])
     @ (if taskId \<noteq> []
        then [CHR 10] @ link_sign @ '' Task: '' @ taskId
             @ (if notionUrl \<noteq> [] then '' '' @ bullet @ '' '' @ notionUrl else [])
        else [])
     @ (if truthy (n_commitMessage n)
        then [CHR 10] @ memo @ '' '' @ to_str w (n_commitMessage n) else [])"

definition slack_text :: "world \<Rightarrow> notification \<Rightarrow> string \<Rightarrow> string \<Rightarrow> string" where
  "slack_text w n taskId notionUrl =
     rocket @ '' *Preview build* '' @ to_str w (n_status n) @ message_tail w n taskId notionUrl"

definition client_payload_of :: "notification \<Rightarrow> string \<Rightarrow> string \<Rightarrow> (string \<times> json_value) list" where
  "client_payload_of n taskId notionUrl =
     [(''status'', n_status n), (''buildUrl'', n_buildUrl n), (''branch'', n_gitRef n),
      (''commitMessage'', n_commitMessage n), (''taskId'', JStr taskId),
      (''notionUrl'', JStr notionUrl)]"

definition dispatch :: "world \<Rightarrow> env \<Rightarrow> notification \<Rightarrow> string \<Rightarrow> string \<Rightarrow> event list \<times> (js_error + response)" where
  "dispatch w e n taskId notionUrl =
     (if useDispatch e then dispatch_github w e (client_payload_of n taskId notionUrl)
      else dispatch_slack w e (slack_text w n taskId notionUrl))"

section \<open>The worker of \<open>src/worker.ts\<close>\<close>

text \<open>
  \<^verbatim>\<open>
  const body = (await safeJson(request)) as any;
  const status: string = body?.status || body?.event || "unknown";
  const buildUrl: string = body?.buildDetailsPageUrl || body?.build?.detailsPageUrl || "";
  const gitRef: string =
    body?.gitRef || body?.metadata?.gitRef || body?.metadata?.appVersion || "";
  const commitMessage: string = body?.metadata?.commitMessage || "";
  \<close>
\<close>

definition safeJson :: "world \<Rightarrow> string \<Rightarrow> json_value" where
  "safeJson w raw = (case json_parse w raw of None \<Rightarrow> JObj [] | Some v \<Rightarrow> v)"

definition read_notification :: "json_value \<Rightarrow> notification" where
  "read_notification b =
     \<lparr>n_status = or_else (member_of ''status'' (Some b))
                   (or_else (member_of ''event'' (Some b)) (JStr ''unknown'')),
      n_buildUrl = or_else (member_of ''buildDetailsPageUrl'' (Some b))
                     (or_else (member_of ''detailsPageUrl'' (member_of ''build'' (Some b)))
                        (JStr [])),
      n_gitRef = or_else (member_of ''gitRef'' (Some b))
                   (or_else (member_of ''gitRef'' (member_of ''metadata'' (Some b)))
                      (or_else (member_of ''appVersion'' (member_of ''metadata'' (Some b)))
                         (JStr []))),
      n_commitMessage = or_else (member_of ''commitMessage'' (member_of ''metadata'' (Some b)))
                          (JStr [])\<rparr>"

text \<open>Everything after the signature check: steps 2 to 5 of \<open>fetch\<close>.\<close>

definition relay :: "world \<Rightarrow> env \<Rightarrow> request \<Rightarrow> event list \<times> (js_error + response)" where
  "relay w e rq =
     (let n = read_notification (safeJson w (req_body rq));
          taskId = task_id_of (to_str w (n_gitRef n) @ '' '' @ to_str w (n_commitMessage n));
          looked = resolve_notion w e taskId;
          sent = dispatch w e n taskId (snd looked)
      in (Parsed_body # fst looked @ fst sent, snd sent))"

text \<open>
  \<^verbatim>\<open>
  async fetch(request: Request, env: Env): Promise<Response> {
    if (request.method !== "POST") {
      return json({ error: "Method Not Allowed" }, 405);
    }
    if (env.EXPO_WEBHOOK_SECRET) {
      const bodyText = await request.clone().text();
      const sigHeader = request.headers.get("expo-signature") || "";
      const ok = await verifyHmacSha1Base64(bodyText, env.EXPO_WEBHOOK_SECRET, sigHeader);
      if (!ok) return json({ error: "Invalid signature" }, 401);
    }
    ...
  \<close>
\<close>

definition fetch_worker :: "world \<Rightarrow> env \<Rightarrow> request \<Rightarrow> event list \<times> (js_error + response)" where
  "fetch_worker w e rq =
     (if req_method rq \<noteq> ''POST'' then ([], json (error_body ''Method Not Allowed'') 405)
      else if is_set (EXPO_WEBHOOK_SECRET e)
              \<and> \<not> verifyHmacSha1Base64 w (req_body rq) (str_or (EXPO_WEBHOOK_SECRET e) [])
                    (str_or (req_header rq ''expo-signature'') [])
      then ([], json (error_body ''Invalid signature'') 401)
      else relay w e rq)"

section \<open>The extended worker\<close>

text \<open>
  The second worker of the repository adds the routes, the four digests, the build
  profile and the profile in its messages.
  \<^verbatim>\<open>
  const HANDLED_PATHS = new Set<string>(['/', '/api/expo-webhook']);
  \<close>
\<close>

definition HANDLED_PATHS :: "string list" where
  "HANDLED_PATHS = [''/'', ''/api/expo-webhook'']"

text \<open>
  \<^verbatim>\<open>
  const commitMessage: string =
    body?.metadata?.commitMessage || body?.metadata?.gitCommitMessage || '';
  const profile: string =
    body?.metadata?.buildProfile || body?.metadata?.appBuildProfile ||
    body?.metadata?.profile || 'unknown';
  \<close>
\<close>

definition read_notification_ext :: "json_value \<Rightarrow> notification" where
  "read_notification_ext b =
     (read_notification b)
       \<lparr>n_commitMessage :=
          or_else (member_of ''commitMessage'' (member_of ''metadata'' (Some b)))
            (or_else (member_of ''gitCommitMessage'' (member_of ''metadata'' (Some b)))
               (JStr []))\<rparr>"

definition read_profile :: "json_value \<Rightarrow> json_value" where
  "read_profile b =
     or_else (member_of ''buildProfile'' (member_of ''metadata'' (Some b)))
       (or_else (member_of ''appBuildProfile'' (member_of ''metadata'' (Some b)))
          (or_else (member_of ''profile'' (member_of ''metadata'' (Some b)))
             (JStr ''unknown'')))"

text \<open>
  \<^verbatim>\<open>
  let text = `(rocket) Preview build ${status}`;
  ... the same four lines ...
  text += `\n(test tube) Profile: ${profile}`;
  \<close>
\<close>

definition slack_text_ext :: "world \<Rightarrow> notification \<Rightarrow> string \<Rightarrow> string \<Rightarrow> string \<Rightarrow> string" where
  "slack_text_ext w n taskId notionUrl profile =
     rocket @ '' Preview build '' @ to_str w (n_status n) @ message_tail w n taskId notionUrl
     @ [CHR 10] @ test_tube @ '' Profile: '' @ profile"

definition dispatch_ext ::
  "world \<Rightarrow> env \<Rightarrow> notification \<Rightarrow> string \<Rightarrow> string \<Rightarrow> string \<Rightarrow> event list \<times> (js_error + response)" where
  "dispatch_ext w e n taskId notionUrl profile =
     (if useDispatch e
      then dispatch_github w e (client_payload_of n taskId notionUrl @ [(''profile'', JStr profile)])
      else dispatch_slack w e (slack_text_ext w n taskId notionUrl profile))"

text \<open>
  Steps 4 to 6, for a profile that is the string \<open>profile\<close>:
  \<^verbatim>\<open>
  const joined = `${gitRef ?? ''} ${commitMessage ?? ''}`;
  \<close>
\<close>

definition act_on_preview ::
  "world \<Rightarrow> env \<Rightarrow> notification \<Rightarrow> string \<Rightarrow> event list \<times> (js_error + response)" where
  "act_on_preview w e n profile =
     (let joined = to_str w (nullish (n_gitRef n) (JStr [])) @ '' ''
                   @ to_str w (nullish (n_commitMessage n) (JStr []));
          taskId = task_id_of joined;
          looked = resolve_notion_ext w e taskId;
          sent = dispatch_ext w e n taskId (snd looked) profile
      in (fst looked @ fst sent, snd sent))"

text \<open>
  Steps 2 and 3: the body is parsed, and only preview builds go on.
  \<^verbatim>\<open>
  const body = safeParseJson(rawBody) as any;
  ...
  if (profile.toLowerCase() !== 'preview') {
    log('[SKIP] non-preview build, profile=', profile);
    return new Response(null, { status: 204 });
  }
  \<close>
  A profile that is no string has no \<open>toLowerCase\<close>: the call throws a \<open>TypeError\<close>, which
  nothing catches.
\<close>

definition filter_profile :: "world \<Rightarrow> env \<Rightarrow> request \<Rightarrow> event list \<times> (js_error + response)" where
  "filter_profile w e rq =
     (let b = safeJson w (req_body rq);
          n = read_notification_ext b
      in case read_profile b of
           JStr profile \<Rightarrow>
             if lower profile \<noteq> ''preview'' then ([Parsed_body], new_response None 204)
             else (let acted = act_on_preview w e n profile
                   in (Parsed_body # fst acted, snd acted))
         | _ \<Rightarrow> ([Parsed_body], Inl TypeError))"

text \<open>
  \<^verbatim>\<open>
  if (env.EXPO_WEBHOOK_SECRET) {
    const sigHeader =
      request.headers.get('expo-signature') || request.headers.get('Expo-Signature') || '';
    const provided = sigHeader.includes('=') ? sigHeader.split('=')[1] : sigHeader;
    const exp = await computeHmacs(rawBody, env.EXPO_WEBHOOK_SECRET);
    const ok = timingSafeEq(provided, exp.sha1.b64) || ... ;
    if (!ok) return json({ error: 'Invalid signature' }, 401);
  }
  \<close>
  Here nothing catches: an \<open>undefined\<close> value for \<open>provided\<close> would make the comparison
  throw.
\<close>

definition sig_header_ext :: "request \<Rightarrow> string" where
  "sig_header_ext rq =
     str_or (req_header rq ''expo-signature'') (str_or (req_header rq ''Expo-Signature'') [])"

definition verify_ext :: "world \<Rightarrow> string \<Rightarrow> request \<Rightarrow> js_error + bool" where
  "verify_ext w secret rq =
     (case provided_of (sig_header_ext rq) of
        None \<Rightarrow> Inl TypeError
      | Some provided \<Rightarrow> Inr (snd (signature_match provided (computeHmacs w (req_body rq) secret))))"

text \<open>
  \<^verbatim>\<open>
  async fetch(request: Request, env: Env): Promise<Response> {
    const { pathname } = new URL(request.url);
    if (!HANDLED_PATHS.has(pathname)) {
      return json({ error: 'Not Found', path: pathname }, 404);
    }
    if (request.method === 'GET') {
      return json({ ok: true, route: pathname }, 200);
    }
    if (request.method !== 'POST') {
      return json({ error: 'Method Not Allowed' }, 405);
    }
    const rawBody = await request.text();
    ...
  \<close>
\<close>

definition fetch_worker_ext :: "world \<Rightarrow> env \<Rightarrow> request \<Rightarrow> event list \<times> (js_error + response)" where
  "fetch_worker_ext w e rq =
     (if req_pathname rq \<notin> set HANDLED_PATHS
      then ([], json (JObj [(''error'', JStr ''Not Found''), (''path'', JStr (req_pathname rq))]) 404)
      else if req_method rq = ''GET''
      then ([], json (JObj [(''ok'', JBool True), (''route'', JStr (req_pathname rq))]) 200)
      else if req_method rq \<noteq> ''POST''
      then ([], json (error_body ''Method Not Allowed'') 405)
      else if is_set (EXPO_WEBHOOK_SECRET e) then
        (case verify_ext w (str_or (EXPO_WEBHOOK_SECRET e) []) rq of
           Inl err \<Rightarrow> ([], Inl err)
         | Inr matched \<Rightarrow>
             if \<not> matched then ([], json (error_body ''Invalid signature'') 401)
             else filter_profile w e rq)
      else filter_profile w e rq)"

section \<open>A sample delivery\<close>

text \<open>
  The delivery of the repository's test script: its secret, its payload (written on one
  line) and the digests of that text under that secret, as \<open>openssl dgst -hmac\<close> computes
  them. The sample world answers at this request as the platform does; the network is a
  parameter.
\<close>

definition sample_secret :: string where
  "sample_secret = ''LOLWOWLOLWOWLOLWOWLOLWOW''"

definition sample_raw :: string where
  \<open>sample_raw = ''{"status":"finished","gitRef":"feature/SPR-3374","metadata":{"commitMessage":"Preview build for SPR-3374"}}''\<close>

definition sample_payload :: json_value where
  "sample_payload =
     JObj [(''status'', JStr ''finished''),
           (''gitRef'', JStr ''feature/SPR-3374''),
           (''metadata'', JObj [(''commitMessage'', JStr ''Preview build for SPR-3374'')])]"

definition sample_sha1 :: "8 word list" where
  "sample_sha1 = [113, 232, 154, 21, 202, 249, 254, 30, 36, 119, 37, 119, 214, 42, 48, 212,
                  190, 0, 193, 58]"

definition sample_sha256 :: "8 word list" where
  "sample_sha256 = [153, 1, 121, 116, 214, 125, 91, 208, 210, 113, 199, 7, 240, 36, 194, 172,
                    199, 58, 26, 5, 136, 166, 168, 154, 190, 142, 166, 102, 88, 26, 169, 91]"

definition sample_world :: "json_value \<Rightarrow> (outbound \<Rightarrow> fetch_result) \<Rightarrow> world" where
  "sample_world parsed net =
     \<lparr>hmac_sha1 = (\<lambda>secret text. sample_sha1),
      hmac_sha256 = (\<lambda>secret text. sample_sha256),
      json_parse = (\<lambda>text. Some parsed),
      js_string = (\<lambda>v. ''[object Object]''),
      remote = net\<rparr>"

definition sample_request :: "string option \<Rightarrow> request" where
  "sample_request signature =
     \<lparr>req_method = ''POST'',
      req_pathname = ''/api/expo-webhook'',
      req_header = (\<lambda>name. if name = ''expo-signature'' then signature else None),
      req_body = sample_raw\<rparr>"

definition sample_env :: env where
  "sample_env =
     \<lparr>SLACK_WEBHOOK_URL = Some ''https://hooks.slack.com/services/T0/B0/X0'',
      NOTION_TOKEN = None,
      EXPO_WEBHOOK_SECRET = Some sample_secret,
      DISPATCH_TO_GITHUB = None,
      GH_OWNER = None,
      GH_REPO = None,
      GH_REPO_DISPATCH_TOKEN = None\<rparr>"

section \<open>A sample table of characters\<close>

text \<open>
  A table over code points: the ASCII classes, and four characters beyond ASCII with
  the classes and the case mappings they have in Python 3. The letter e with acute
  accent (\<open>U+00E9\<close>) is a word character whose upper-case form is \<open>U+00C9\<close>; the
  Arabic-Indic digit three (\<open>U+0663\<close>) is a digit; the no-break space (\<open>U+00A0\<close>) is white
  space; the long s (\<open>U+017F\<close>) is a word character that matches the letter s when case
  is ignored and whose upper-case form is \<open>S\<close>.
\<close>

definition fold_case :: "nat \<Rightarrow> nat" where
  "fold_case n =
     (if 65 \<le> n \<and> n \<le> 90 then n + 32
      else if n = 0xC9 then 0xE9
      else if n = 0x17F then 115
      else n)"

definition sample_unicode :: "nat chars" where
  "sample_unicode =
     \<lparr>ascii = of_char,
      word_char = (\<lambda>n. (48 \<le> n \<and> n \<le> 57) \<or> (65 \<le> n \<and> n \<le> 90) \<or> (97 \<le> n \<and> n \<le> 122)
                       \<or> n = 95 \<or> n = 0xE9 \<or> n = 0xC9 \<or> n = 0x663 \<or> n = 0x17F),
      digit_char = (\<lambda>n. (48 \<le> n \<and> n \<le> 57) \<or> n = 0x663),
      space_char = (\<lambda>n. (9 \<le> n \<and> n \<le> 13) \<or> (28 \<le> n \<and> n \<le> 32) \<or> n = 0xA0),
      same_ci = (\<lambda>p c. fold_case p = fold_case c),
      upper_of = (\<lambda>n. if 97 \<le> n \<and> n \<le> 122 then [n - 32]
                       else if n = 0xE9 then [0xC9]
                       else if n = 0x17F then [83]
                       else [n])\<rparr>"

section \<open>Record ids: results\<close>

lemma slice_as_groups:
  "slice 0 8 s @ ''-'' @ slice 8 12 s @ ''-'' @ slice 12 16 s @ ''-''
     @ slice 16 20 s @ ''-'' @ slice 20 32 s = hyphenation_8_4_4_4_12 s"
  by (simp add: slice_def hyphenation_8_4_4_4_12_def)

lemma is_hex_not_hyphen: "is_hex c \<Longrightarrow> c \<noteq> CHR ''-''"
  by (auto simp: is_hex_def is_digit_def code_def)

lemma hyphenation_length:
  "length s = 32 \<Longrightarrow> length (hyphenation_8_4_4_4_12 s) = 36"
  by (simp add: hyphenation_8_4_4_4_12_def)

lemma hyphenation_strip:
  assumes "is_hex32 s"
  shows "remove_char (CHR ''-'') (hyphenation_8_4_4_4_12 s) = s"
proof -
  have nohy: "filter (\<lambda>x. x \<noteq> CHR ''-'') t = t" if "set t \<subseteq> set s" for t
    using that assms is_hex_not_hyphen
    by (auto simp: is_hex32_def list_all_iff filter_id_conv)
  have parts: "set (take n (drop k s)) \<subseteq> set s" for n k
    by (meson set_drop_subset set_take_subset subset_trans)
  have "remove_char (CHR ''-'') (hyphenation_8_4_4_4_12 s)
      = take 8 s @ take 4 (drop 8 s) @ take 4 (drop 12 s) @ take 4 (drop 16 s)
        @ take 12 (drop 20 s)"
    using nohy [OF parts [of 8 0]] nohy [OF parts]
    by (simp add: hyphenation_8_4_4_4_12_def remove_char_def)
  also have "\<dots> = take 32 s"
    using take_add [of 8 4 s] take_add [of 12 4 s] take_add [of 16 4 s] take_add [of 20 12 s]
    by simp
  also have "\<dots> = s"
    using assms by (simp add: is_hex32_def)
  finally show ?thesis .
qed

text \<open>
  Claim C10. \<open>ensure_uuid_hyphens\<close> returns the 8-4-4-4-12 hyphenation of the input
  without its hyphens when that is exactly 32 hexadecimal characters, a text of 36
  characters that loses nothing but hyphens; every other input comes back unchanged.
\<close>

theorem ensure_uuid_hyphens_spec:
  "(is_hex32 (remove_char (CHR ''-'') id32) \<longrightarrow>
      ensure_uuid_hyphens id32 = hyphenation_8_4_4_4_12 (remove_char (CHR ''-'') id32)
      \<and> length (ensure_uuid_hyphens id32) = 36
      \<and> remove_char (CHR ''-'') (ensure_uuid_hyphens id32) = remove_char (CHR ''-'') id32)
   \<and> (\<not> is_hex32 (remove_char (CHR ''-'') id32) \<longrightarrow> ensure_uuid_hyphens id32 = id32)"
proof (cases "is_hex32 (remove_char (CHR ''-'') id32)")
  case True
  then have "ensure_uuid_hyphens id32 = hyphenation_8_4_4_4_12 (remove_char (CHR ''-'') id32)"
    unfolding ensure_uuid_hyphens_def Let_def
    by (simp only: slice_as_groups) (simp add: is_hex32_def)
  with True show ?thesis
    by (simp add: hyphenation_strip hyphenation_length is_hex32_def)
next
  case False
  then show ?thesis
    by (auto simp: ensure_uuid_hyphens_def Let_def is_hex32_def)
qed

theorem ensure_uuid_hyphens_spec_witness:
  "is_hex32 (remove_char (CHR ''-'') ''25B6cafc5b5c-801fba02ea17d3cc4b77'')
   \<and> ensure_uuid_hyphens ''25B6cafc5b5c-801fba02ea17d3cc4b77''
       = ''25B6cafc-5b5c-801f-ba02-ea17d3cc4b77''
   \<and> \<not> is_hex32 (remove_char (CHR ''-'') ''not-a-page-id'')
   \<and> ensure_uuid_hyphens ''not-a-page-id'' = ''not-a-page-id''"
proof -
  have a: "is_hex32 (remove_char (CHR ''-'') ''25B6cafc5b5c-801fba02ea17d3cc4b77'')"
    by (simp add: is_hex32_def remove_char_def is_hex_def is_digit_def code_def)
  have b: "\<not> is_hex32 (remove_char (CHR ''-'') ''not-a-page-id'')"
    by (simp add: is_hex32_def remove_char_def)
  have c: "hyphenation_8_4_4_4_12 (remove_char (CHR ''-'') ''25B6cafc5b5c-801fba02ea17d3cc4b77'')
             = ''25B6cafc-5b5c-801f-ba02-ea17d3cc4b77''"
    by (simp add: hyphenation_8_4_4_4_12_def remove_char_def)
  show ?thesis
    using a b c ensure_uuid_hyphens_spec [of "''25B6cafc5b5c-801fba02ea17d3cc4b77''"]
      ensure_uuid_hyphens_spec [of "''not-a-page-id''"]
    by simp
qed

section \<open>Identifier extraction: results\<close>

text \<open>
  What the scan needs of the table: the line break that joins the fields is one
  character, different from the other ASCII characters, that is no word character and
  no digit, is white space, and is matched by no other character of a pattern.
\<close>

lemma boundary_line:
  "\<not> word_char U (ascii U (CHR 10)) \<Longrightarrow>
   boundary U w (xs @ ascii U (CHR 10) # ys) = boundary U w xs"
  by (cases xs) (simp_all add: boundary_def)

lemma strip_prefix_line:
  "nl \<notin> set p \<Longrightarrow> strip_prefix p (xs @ nl # ys) = map_option (\<lambda>r. r @ nl # ys) (strip_prefix p xs)"
  by (induction p xs rule: strip_prefix.induct) auto

lemma lit_line: "inj (ascii U) \<Longrightarrow> CHR 10 \<notin> set s \<Longrightarrow> ascii U (CHR 10) \<notin> set (lit U s)"
  by (auto simp: lit_def inj_def)

lemma strip_prefix_ci_line:
  assumes "\<forall>p. same_ci U p nl \<longrightarrow> p = nl" and "nl \<notin> set p"
  shows "strip_prefix_ci U p (xs @ nl # ys) = map_option (\<lambda>r. r @ nl # ys) (strip_prefix_ci U p xs)"
  using assms by (induction U p xs rule: strip_prefix_ci.induct) auto

lemma strip_prefix_length: "strip_prefix p xs = Some r \<Longrightarrow> length xs = length p + length r"
  by (induction p xs rule: strip_prefix.induct) (auto split: if_splits)

lemma strip_prefix_ci_length:
  "strip_prefix_ci U p xs = Some r \<Longrightarrow> length xs = length p + length r"
  by (induction U p xs rule: strip_prefix_ci.induct) (auto split: if_splits)

lemma find_in_set: "find P xs = Some x \<Longrightarrow> x \<in> set xs"
  by (induction xs) (auto split: if_splits)

lemma digits_len_bound:
  assumes "digits_len U r = Some k"
  shows "1 \<le> k \<and> k \<le> length r"
proof -
  have "k \<in> set (rev [1 ..< Suc (length (takeWhile (digit_char U) r))])"
    using assms unfolding digits_len_def by (rule find_in_set)
  then have "1 \<le> k \<and> k \<le> length (takeWhile (digit_char U) r)"
    by (simp only: set_rev set_upt) auto
  moreover have "length (takeWhile (digit_char U) r) \<le> length r"
    by (rule length_takeWhile_le)
  ultimately show ?thesis by auto
qed

lemma digits_len_line:
  assumes "\<not> word_char U (ascii U (CHR 10))" and "\<not> digit_char U (ascii U (CHR 10))"
  shows "digits_len U (r @ ascii U (CHR 10) # ys) = digits_len U r"
proof -
  have digits: "takeWhile (digit_char U) (r @ ascii U (CHR 10) # ys) = takeWhile (digit_char U) r"
    using assms(2) by (simp add: takeWhile_tail)
  have "find (\<lambda>k. boundary U True (drop k (r @ ascii U (CHR 10) # ys)))
                  (rev [1 ..< Suc (length (takeWhile (digit_char U) r))])
              = find (\<lambda>k. boundary U True (drop k r))
                  (rev [1 ..< Suc (length (takeWhile (digit_char U) r))])"
  proof (rule find_cong [OF refl])
    fix k assume "k \<in> set (rev [1 ..< Suc (length (takeWhile (digit_char U) r))])"
    then have "k \<le> length (takeWhile (digit_char U) r)"
      by (simp only: set_rev set_upt) auto
    then have "k \<le> length r"
      using length_takeWhile_le [of "digit_char U" r] by simp
    then show "boundary U True (drop k (r @ ascii U (CHR 10) # ys)) = boundary U True (drop k r)"
      using assms(1) by (simp add: boundary_line)
  qed
  then show ?thesis
    unfolding digits_len_def digits by simp
qed

lemma lit_length: "length (lit U s) = length s"
  by (simp add: lit_def)

lemma task_len_bound: "task_len U p w s = Some n \<Longrightarrow> 0 < n \<and> n \<le> length s"
  by (auto simp: task_len_def lit_length split: if_splits option.splits
      dest!: strip_prefix_length strip_prefix_ci_length digits_len_bound)

lemma task_len_Nil: "task_len U p w [] = None"
  using task_len_bound [of U p w "[]"] by (cases "task_len U p w []") auto

lemma task_len_line:
  assumes "inj (ascii U)" and "\<not> word_char U (ascii U (CHR 10))"
    and "\<not> digit_char U (ascii U (CHR 10))"
    and "\<forall>p. same_ci U p (ascii U (CHR 10)) \<longrightarrow> p = ascii U (CHR 10)"
    and "ascii U (CHR 10) \<notin> set p"
  shows "task_len U p w (xs @ ascii U (CHR 10) # ys) = task_len U p w xs"
proof -
  have hy: "ascii U (CHR 10) \<notin> set (lit U ''-'')"
    using assms(1) by (intro lit_line) simp_all
  show ?thesis
    using assms(2-5)
    by (simp add: task_len_def boundary_line strip_prefix_ci_line strip_prefix_line [OF hy]
        digits_len_line split: option.splits)
qed

lemma link_tail_bound: "link_tail U r = Some n \<Longrightarrow> 0 < n \<and> n \<le> length r"
  using length_takeWhile_le [of "link_char U"]
  by (auto simp: link_tail_def Let_def lit_length split: option.splits if_splits
      dest!: strip_prefix_length intro: le_trans)

lemma link_host_bound: "link_host U r = Some n \<Longrightarrow> 0 < n \<and> n \<le> length r"
  by (auto simp: link_host_def lit_length split: option.splits
      dest!: strip_prefix_length link_tail_bound)

lemma link_after_scheme_bound: "link_after_scheme U r = Some n \<Longrightarrow> 0 < n \<and> n \<le> length r"
  by (auto simp: link_after_scheme_def lit_length split: option.splits
      dest!: strip_prefix_length link_host_bound)

lemma link_len_bound: "link_len U w s = Some n \<Longrightarrow> 0 < n \<and> n \<le> length s"
  by (auto simp: link_len_def lit_length split: option.splits
      dest!: strip_prefix_length link_after_scheme_bound)

lemma link_len_Nil: "link_len U w [] = None"
  by (simp add: link_len_def lit_def)

lemma link_tail_line:
  assumes "inj (ascii U)" and "space_char U (ascii U (CHR 10))"
  shows "link_tail U (r @ ascii U (CHR 10) # ys) = link_tail U r"
proof -
  have l: "ascii U (CHR 10) \<notin> set (lit U ''notion.so/'')"
    using assms(1) by (intro lit_line) simp_all
  have "\<not> link_char U (ascii U (CHR 10))"
    using assms(2) by (simp add: link_char_def)
  then show ?thesis
    by (simp add: link_tail_def strip_prefix_line [OF l] takeWhile_tail split: option.splits)
qed

lemma link_host_line:
  assumes "inj (ascii U)" and "space_char U (ascii U (CHR 10))"
  shows "link_host U (r @ ascii U (CHR 10) # ys) = link_host U r"
proof -
  have l: "ascii U (CHR 10) \<notin> set (lit U ''www.'')"
    using assms(1) by (intro lit_line) simp_all
  show ?thesis
    by (auto simp: link_host_def strip_prefix_line [OF l] link_tail_line [OF assms]
        split: option.splits)
qed

lemma link_after_scheme_line:
  assumes "inj (ascii U)" and "space_char U (ascii U (CHR 10))"
  shows "link_after_scheme U (r @ ascii U (CHR 10) # ys) = link_after_scheme U r"
proof -
  have l: "ascii U (CHR 10) \<notin> set (lit U ''://'')"
    using assms(1) by (intro lit_line) simp_all
  show ?thesis
    by (auto simp: link_after_scheme_def strip_prefix_line [OF l] link_host_line [OF assms]
        split: option.splits)
qed

lemma link_len_line:
  assumes "inj (ascii U)" and "space_char U (ascii U (CHR 10))"
  shows "link_len U w (xs @ ascii U (CHR 10) # ys) = link_len U w xs"
proof -
  have l: "ascii U (CHR 10) \<notin> set (lit U ''http'')" "ascii U (CHR 10) \<notin> set (lit U ''s'')"
    using assms(1) by (intro lit_line; simp)+
  show ?thesis
    by (auto simp: link_len_def strip_prefix_line [OF l(1)] strip_prefix_line [OF l(2)]
        link_after_scheme_line [OF assms] split: option.splits)
qed

text \<open>A pattern whose matches stay on one line is scanned line by line.\<close>

lemma finditer_line:
  assumes line: "\<And>w xs. m w (xs @ nl # ys) = m w xs"
    and nil: "\<And>w. m w [] = None"
    and bound: "\<And>w s n. m w s = Some n \<Longrightarrow> 0 < n \<and> n \<le> length s"
    and nl: "\<not> word_char U nl"
  shows "finditer U m w (xs @ nl # ys) = finditer U m w xs @ finditer U m False ys"
proof (induction xs arbitrary: w rule: length_induct)
  case (1 xs)
  show ?case
  proof (cases xs)
    case Nil
    have "m w (nl # ys) = None"
      using line [of w "[]"] nil by simp
    then show ?thesis
      using Nil nil nl by simp
  next
    case (Cons c cs)
    have same: "m w ((c # cs) @ nl # ys) = m w (c # cs)"
      by (rule line)
    show ?thesis
    proof (cases "m w (c # cs)")
      case None
      then show ?thesis
        using same Cons "1.IH" [rule_format, of cs "word_char U c"] by simp
    next
      case (Some n)
      then have n: "0 < n" "n \<le> length (c # cs)"
        using bound by blast+
      have step: "finditer U m w (c # zs)
          = take n (c # zs)
            # finditer U m (word_char U (last (take n (c # zs)))) (drop n (c # zs))"
        if "m w (c # zs) = Some n" for zs
        using that n by simp
      have "length (drop n (c # cs)) < length xs"
        using n Cons by simp
      then have ih: "finditer U m (word_char U (last (take n (c # cs)))) (drop n (c # cs) @ nl # ys)
          = finditer U m (word_char U (last (take n (c # cs)))) (drop n (c # cs))
            @ finditer U m False ys"
        using "1.IH" by blast
      have tk: "take n (c # cs @ nl # ys) = take n (c # cs)"
        and dr: "drop n (c # cs @ nl # ys) = drop n (c # cs) @ nl # ys"
        using n by (simp_all add: take_Cons' drop_Cons')
      have "finditer U m w (c # cs @ nl # ys)
          = take n (c # cs)
            # finditer U m (word_char U (last (take n (c # cs)))) (drop n (c # cs) @ nl # ys)"
        using step [of "cs @ nl # ys"] same Some by (simp only: tk dr append_Cons)
      also have "\<dots> = finditer U m w (c # cs) @ finditer U m False ys"
        using step [of cs] Some by (simp only: ih append_Cons)
      finally show ?thesis
        using Cons by simp
    qed
  qed
qed

lemma finditer_fields:
  assumes line: "\<And>w xs ys. m w (xs @ ascii U (CHR 10) # ys) = m w xs"
    and nil: "\<And>w. m w [] = None"
    and bound: "\<And>w s n. m w s = Some n \<Longrightarrow> 0 < n \<and> n \<le> length s"
    and nl: "\<not> word_char U (ascii U (CHR 10))"
  shows "finditer U m False (t @ lit U [CHR 10] @ b @ lit U [CHR 10] @ r)
       = finditer U m False t @ finditer U m False b @ finditer U m False r"
  using finditer_line [of m "ascii U (CHR 10)", OF line nil bound nl] by (simp add: lit_def)

lemma sorted_set_props: "sorted (sorted_set xs) \<and> distinct (sorted_set xs) \<and> set (sorted_set xs) = set xs"
  by (simp add: sorted_set_def)

lemma sorted_set_cong: "set xs = set ys \<Longrightarrow> sorted_set xs = sorted_set ys"
  unfolding sorted_set_def
  by (simp add: sorted_list_of_set_sort_remdups [symmetric])

lemma py_upper_idem:
  assumes "\<forall>c. py_upper U (upper_of U c) = upper_of U c"
  shows "py_upper U (py_upper U s) = py_upper U s"
proof (induction s)
  case Nil
  show ?case by (simp add: py_upper_def)
next
  case (Cons c s)
  have app: "py_upper U (a @ b) = py_upper U a @ py_upper U b" for a b
    by (simp add: py_upper_def)
  have "py_upper U (c # s) = upper_of U c @ py_upper U s"
    by (simp add: py_upper_def)
  then show ?case
    using Cons assms by (simp add: app)
qed

lemma task_ids_fields:
  assumes "inj (ascii U)" and "\<not> word_char U (ascii U (CHR 10))"
    and "\<not> digit_char U (ascii U (CHR 10))"
    and "\<forall>p. same_ci U p (ascii U (CHR 10)) \<longrightarrow> p = ascii U (CHR 10)"
    and "ascii U (CHR 10) \<notin> set p"
  shows "task_ids (parse_task_refs U p t b r)
       = sorted_set (map (py_upper U) (finditer U (task_len U p) False t
                                       @ finditer U (task_len U p) False (or_empty b)
                                       @ finditer U (task_len U p) False (or_empty r)))"
  using finditer_fields [of "task_len U p" U t "or_empty b" "or_empty r",
      OF task_len_line [OF assms] task_len_Nil task_len_bound assms(2)]
  by (simp add: parse_task_refs_def Let_def)

lemma notion_links_fields:
  assumes "inj (ascii U)" and "\<not> word_char U (ascii U (CHR 10))"
    and "space_char U (ascii U (CHR 10))"
  shows "notion_links (parse_task_refs U p t b r)
     = sorted_set (finditer U (link_len U) False t
                   @ finditer U (link_len U) False (or_empty b)
                   @ finditer U (link_len U) False (or_empty r))"
  using finditer_fields [of "link_len U" U t "or_empty b" "or_empty r",
      OF link_len_line [OF assms(1,3)] link_len_Nil link_len_bound assms(2)]
  by (simp add: parse_task_refs_def Let_def)

lemma task_refs_eqI:
  "task_ids x = task_ids y \<Longrightarrow> notion_links x = notion_links y \<Longrightarrow> x = (y :: 'c task_refs)"
  by simp

lemma parse_task_refs_perm:
  assumes "inj (ascii U)" and "\<not> word_char U (ascii U (CHR 10))"
    and "\<not> digit_char U (ascii U (CHR 10))" and "space_char U (ascii U (CHR 10))"
    and "\<forall>p. same_ci U p (ascii U (CHR 10)) \<longrightarrow> p = ascii U (CHR 10)"
    and "ascii U (CHR 10) \<notin> set p"
    and "set [t', b', r'] = set [t, b, r]"
  shows "parse_task_refs U p t' (Some b') (Some r') = parse_task_refs U p t (Some b) (Some r)"
proof (rule task_refs_eqI)
  have u: "(\<Union>x \<in> set [t', b', r']. f x) = (\<Union>x \<in> set [t, b, r]. f x)" for f :: "'a list \<Rightarrow> 'a list set"
    using assms(7) by simp
  show "task_ids (parse_task_refs U p t' (Some b') (Some r'))
      = task_ids (parse_task_refs U p t (Some b) (Some r))"
    unfolding task_ids_fields [OF assms(1,2,3,5,6)]
    using u [of "\<lambda>x. set (map (py_upper U) (finditer U (task_len U p) False x))"]
    by (intro sorted_set_cong) (simp add: or_empty_def Un_assoc)
  show "notion_links (parse_task_refs U p t' (Some b') (Some r'))
      = notion_links (parse_task_refs U p t (Some b) (Some r))"
    unfolding notion_links_fields [OF assms(1,2,4)]
    using u [of "\<lambda>x. set (finditer U (link_len U) False x)"]
    by (intro sorted_set_cong) (simp add: or_empty_def Un_assoc)
qed

text \<open>
  Claim C8. The texts are Python strings over any type of characters, classified by any
  table \<open>U\<close> in which the line break is what it is in the Unicode database (one
  character, no word character, no digit, white space, matched by no other character
  when case is ignored) and the upper-case form of a character is its own upper-case
  form; the prefix token holds no line break. Then, for all texts \<open>title\<close>, \<open>body\<close> and
  \<open>branch\<close>: every permutation of the three fields gives the same two lists as the
  original order, so no identifier is lost by re-ordering; both lists are sorted and
  free of duplicates; and every short code is in upper case. The extraction is a
  function of its arguments, the prefix and the table, so running it again on the same
  inputs gives the same result.
\<close>

theorem parse_task_refs_stable:
  assumes "inj (ascii U)"
    and "\<not> word_char U (ascii U (CHR 10))"
    and "\<not> digit_char U (ascii U (CHR 10))"
    and "space_char U (ascii U (CHR 10))"
    and "\<forall>p. same_ci U p (ascii U (CHR 10)) \<longrightarrow> p = ascii U (CHR 10)"
    and "\<forall>c. py_upper U (upper_of U c) = upper_of U c"
    and "ascii U (CHR 10) \<notin> set TASK_PREFIX"
  shows "parse_task_refs U TASK_PREFIX title (Some branch) (Some body)
           = parse_task_refs U TASK_PREFIX title (Some body) (Some branch)
       \<and> parse_task_refs U TASK_PREFIX body (Some title) (Some branch)
           = parse_task_refs U TASK_PREFIX title (Some body) (Some branch)
       \<and> parse_task_refs U TASK_PREFIX body (Some branch) (Some title)
           = parse_task_refs U TASK_PREFIX title (Some body) (Some branch)
       \<and> parse_task_refs U TASK_PREFIX branch (Some title) (Some body)
           = parse_task_refs U TASK_PREFIX title (Some body) (Some branch)
       \<and> parse_task_refs U TASK_PREFIX branch (Some body) (Some title)
           = parse_task_refs U TASK_PREFIX title (Some body) (Some branch)
       \<and> sorted (task_ids (parse_task_refs U TASK_PREFIX title (Some body) (Some branch)))
       \<and> distinct (task_ids (parse_task_refs U TASK_PREFIX title (Some body) (Some branch)))
       \<and> sorted (notion_links (parse_task_refs U TASK_PREFIX title (Some body) (Some branch)))
       \<and> distinct (notion_links (parse_task_refs U TASK_PREFIX title (Some body) (Some branch)))
       \<and> list_all (\<lambda>i. py_upper U i = i)
            (task_ids (parse_task_refs U TASK_PREFIX title (Some body) (Some branch)))"
proof -
  have perm: "parse_task_refs U TASK_PREFIX t' (Some b') (Some r')
                = parse_task_refs U TASK_PREFIX title (Some body) (Some branch)"
    if "set [t', b', r'] = set [title, body, branch]" for t' b' r'
    using assms(1,2,3,4,5,7) that by (rule parse_task_refs_perm)
  have up: "list_all (\<lambda>i. py_upper U i = i)
              (task_ids (parse_task_refs U TASK_PREFIX title (Some body) (Some branch)))"
    using py_upper_idem [OF assms(6)]
    by (auto simp: parse_task_refs_def Let_def list_all_iff sorted_set_props)
  have srt: "sorted (task_ids (parse_task_refs U TASK_PREFIX title (Some body) (Some branch)))"
    "distinct (task_ids (parse_task_refs U TASK_PREFIX title (Some body) (Some branch)))"
    "sorted (notion_links (parse_task_refs U TASK_PREFIX title (Some body) (Some branch)))"
    "distinct (notion_links (parse_task_refs U TASK_PREFIX title (Some body) (Some branch)))"
    by (simp_all add: parse_task_refs_def Let_def sorted_set_props)
  have "parse_task_refs U TASK_PREFIX title (Some branch) (Some body)
           = parse_task_refs U TASK_PREFIX title (Some body) (Some branch)"
    by (rule perm) auto
  moreover have "parse_task_refs U TASK_PREFIX body (Some title) (Some branch)
           = parse_task_refs U TASK_PREFIX title (Some body) (Some branch)"
    by (rule perm) auto
  moreover have "parse_task_refs U TASK_PREFIX body (Some branch) (Some title)
           = parse_task_refs U TASK_PREFIX title (Some body) (Some branch)"
    by (rule perm) auto
  moreover have "parse_task_refs U TASK_PREFIX branch (Some title) (Some body)
           = parse_task_refs U TASK_PREFIX title (Some body) (Some branch)"
    by (rule perm) auto
  moreover have "parse_task_refs U TASK_PREFIX branch (Some body) (Some title)
           = parse_task_refs U TASK_PREFIX title (Some body) (Some branch)"
    by (rule perm) auto
  ultimately show ?thesis
    using up srt by simp
qed

text \<open>The sample table has the properties asked of a table.\<close>

lemma sample_unicode_table:
  "inj (ascii sample_unicode)"
  "\<not> word_char sample_unicode (ascii sample_unicode (CHR 10))"
  "\<not> digit_char sample_unicode (ascii sample_unicode (CHR 10))"
  "space_char sample_unicode (ascii sample_unicode (CHR 10))"
  "\<forall>p. same_ci sample_unicode p (ascii sample_unicode (CHR 10))
         \<longrightarrow> p = ascii sample_unicode (CHR 10)"
  "\<forall>c. py_upper sample_unicode (upper_of sample_unicode c) = upper_of sample_unicode c"
  "ascii sample_unicode (CHR 10) \<notin> set (lit sample_unicode ''TASK'')"
proof -
  show "inj (ascii sample_unicode)"
    by (simp add: sample_unicode_def inj_of_char)
  show "\<not> word_char sample_unicode (ascii sample_unicode (CHR 10))"
    "\<not> digit_char sample_unicode (ascii sample_unicode (CHR 10))"
    "space_char sample_unicode (ascii sample_unicode (CHR 10))"
    "ascii sample_unicode (CHR 10) \<notin> set (lit sample_unicode ''TASK'')"
    by (simp_all add: sample_unicode_def lit_def)
  show "\<forall>p. same_ci sample_unicode p (ascii sample_unicode (CHR 10))
         \<longrightarrow> p = ascii sample_unicode (CHR 10)"
  proof (intro allI impI)
    fix p :: nat
    assume "same_ci sample_unicode p (ascii sample_unicode (CHR 10))"
    then have "fold_case p = 10"
      by (simp add: sample_unicode_def fold_case_def)
    then have "p = 10"
      unfolding fold_case_def by (simp split: if_splits)
    then show "p = ascii sample_unicode (CHR 10)"
      by (simp add: sample_unicode_def)
  qed
  show "\<forall>c. py_upper sample_unicode (upper_of sample_unicode c) = upper_of sample_unicode c"
  proof
    fix c :: nat
    have sel: "upper_of sample_unicode
        = (\<lambda>n. if 97 \<le> n \<and> n \<le> 122 then [n - 32]
                else if n = 0xE9 then [0xC9] else if n = 0x17F then [83] else [n])"
      by (simp add: sample_unicode_def)
    have fixed: "upper_of sample_unicode d = [d]"
      if "\<not> (97 \<le> d \<and> d \<le> 122)" "d \<noteq> 0xE9" "d \<noteq> 0x17F" for d
      unfolding sel by (simp only: if_not_P [OF that(1)] if_not_P [OF that(2)] if_not_P [OF that(3)])
    have twice: "py_upper sample_unicode (upper_of sample_unicode c) = upper_of sample_unicode c"
      if "upper_of sample_unicode c = [d]" "upper_of sample_unicode d = [d]" for d
      using that by (simp add: py_upper_def)
    consider (lower) "97 \<le> c \<and> c \<le> 122" | (e) "c = 0xE9" | (s) "c = 0x17F"
      | (other) "\<not> (97 \<le> c \<and> c \<le> 122)" "c \<noteq> 0xE9" "c \<noteq> 0x17F"
      by blast
    then show "py_upper sample_unicode (upper_of sample_unicode c) = upper_of sample_unicode c"
    proof cases
      case lower
      have n: "\<not> (97 \<le> c - 32 \<and> c - 32 \<le> 122)" "c - 32 \<noteq> 0xE9" "c - 32 \<noteq> 0x17F"
        using lower by linarith+
      have "upper_of sample_unicode c = [c - 32]"
        unfolding sel by (simp only: if_P [OF lower])
      then show ?thesis
        using fixed [OF n] by (rule twice)
    next
      case e
      have "upper_of sample_unicode c = [0xC9]"
        unfolding sel e by simp
      moreover have "upper_of sample_unicode 0xC9 = [0xC9]"
        by (rule fixed) simp_all
      ultimately show ?thesis by (rule twice)
    next
      case s
      have "upper_of sample_unicode c = [83]"
        unfolding sel s by simp
      moreover have "upper_of sample_unicode 83 = [83]"
        by (rule fixed) simp_all
      ultimately show ?thesis by (rule twice)
    next
      case other
      have h: "upper_of sample_unicode c = [c]"
        using other by (rule fixed)
      show ?thesis
        using h h by (rule twice)
    qed
  qed
qed

theorem parse_task_refs_stable_witness:
  "inj (ascii sample_unicode)
   \<and> \<not> word_char sample_unicode (ascii sample_unicode (CHR 10))
   \<and> \<not> digit_char sample_unicode (ascii sample_unicode (CHR 10))
   \<and> space_char sample_unicode (ascii sample_unicode (CHR 10))
   \<and> ascii sample_unicode (CHR 10) \<notin> set (lit sample_unicode ''TASK'')
   \<and> parse_task_refs sample_unicode (lit sample_unicode ''TASK'')
        (lit sample_unicode ''task-3 https://notion.so/p'' @ [0xA0] @ lit sample_unicode ''q'')
        (Some (lit sample_unicode ''TASK-1'' @ [0xE9] @ lit sample_unicode '' TASK-2'' @ [0x663]))
        (Some (lit sample_unicode ''fix/ta'' @ [0x17F] @ lit sample_unicode ''k-4''))
     = parse_task_refs sample_unicode (lit sample_unicode ''TASK'')
        (lit sample_unicode ''TASK-1'' @ [0xE9] @ lit sample_unicode '' TASK-2'' @ [0x663])
        (Some (lit sample_unicode ''task-3 https://notion.so/p'' @ [0xA0] @ lit sample_unicode ''q''))
        (Some (lit sample_unicode ''fix/ta'' @ [0x17F] @ lit sample_unicode ''k-4''))
   \<and> parse_task_refs sample_unicode (lit sample_unicode ''TASK'')
        (lit sample_unicode ''TASK-1'' @ [0xE9] @ lit sample_unicode '' TASK-2'' @ [0x663])
        (Some (lit sample_unicode ''task-3 https://notion.so/p'' @ [0xA0] @ lit sample_unicode ''q''))
        (Some (lit sample_unicode ''fix/ta'' @ [0x17F] @ lit sample_unicode ''k-4''))
     = \<lparr>task_ids = [lit sample_unicode ''TASK-2'' @ [0x663], lit sample_unicode ''TASK-3'',
                    lit sample_unicode ''TASK-4''],
        notion_links = [lit sample_unicode ''https://notion.so/p'']\<rparr>"
proof -
  have v: "parse_task_refs sample_unicode (lit sample_unicode ''TASK'')
        (lit sample_unicode ''TASK-1'' @ [0xE9] @ lit sample_unicode '' TASK-2'' @ [0x663])
        (Some (lit sample_unicode ''task-3 https://notion.so/p'' @ [0xA0] @ lit sample_unicode ''q''))
        (Some (lit sample_unicode ''fix/ta'' @ [0x17F] @ lit sample_unicode ''k-4''))
     = \<lparr>task_ids = [lit sample_unicode ''TASK-2'' @ [0x663], lit sample_unicode ''TASK-3'',
                    lit sample_unicode ''TASK-4''],
        notion_links = [lit sample_unicode ''https://notion.so/p'']\<rparr>"
    by code_simp
  have p: "parse_task_refs sample_unicode (lit sample_unicode ''TASK'')
        (lit sample_unicode ''task-3 https://notion.so/p'' @ [0xA0] @ lit sample_unicode ''q'')
        (Some (lit sample_unicode ''TASK-1'' @ [0xE9] @ lit sample_unicode '' TASK-2'' @ [0x663]))
        (Some (lit sample_unicode ''fix/ta'' @ [0x17F] @ lit sample_unicode ''k-4''))
     = parse_task_refs sample_unicode (lit sample_unicode ''TASK'')
        (lit sample_unicode ''TASK-1'' @ [0xE9] @ lit sample_unicode '' TASK-2'' @ [0x663])
        (Some (lit sample_unicode ''task-3 https://notion.so/p'' @ [0xA0] @ lit sample_unicode ''q''))
        (Some (lit sample_unicode ''fix/ta'' @ [0x17F] @ lit sample_unicode ''k-4''))"
    using parse_task_refs_stable [OF sample_unicode_table,
        of "lit sample_unicode ''TASK-1'' @ [0xE9] @ lit sample_unicode '' TASK-2'' @ [0x663]"
           "lit sample_unicode ''fix/ta'' @ [0x17F] @ lit sample_unicode ''k-4''"
           "lit sample_unicode ''task-3 https://notion.so/p'' @ [0xA0] @ lit sample_unicode ''q''"]
    by blast
  show ?thesis
    using sample_unicode_table(1-4,7) v p by (intro conjI)
qed

section \<open>Resolving and merging records: results\<close>

lemma map_of_fold_update:
  "map_of (fold (\<lambda>(k, v) al. AList.update k v al) ps al) = map_of al ++ map_of (rev ps)"
  by (induction ps arbitrary: al) (auto simp: update_conv' map_add_def fun_eq_iff split: option.splits)

lemma distinct_fold_update:
  "distinct (map fst al) \<Longrightarrow> distinct (map fst (fold (\<lambda>(k, v) al. AList.update k v al) ps al))"
  by (induction ps arbitrary: al) (auto simp: distinct_update)

lemma keys_fold_update:
  "fst ` set (fold (\<lambda>(k, v) al. AList.update k v al) ps al) = fst ` set al \<union> fst ` set ps"
proof (induction ps arbitrary: al)
  case Nil
  show ?case by simp
next
  case (Cons p ps)
  have "fst ` set (fold (\<lambda>(k, v) al. AList.update k v al) (p # ps) al)
      = fst ` set (AList.update (fst p) (snd p) al) \<union> fst ` set ps"
    by (cases p) (simp add: Cons)
  also have "\<dots> = fst ` set al \<union> fst ` set (p # ps)"
    by (simp only: dom_update) auto
  finally show ?case .
qed

lemma dedupe_pages_keys: "fst ` set (dedupe_pages pages) = fst ` set pages"
  by (simp add: dedupe_pages_def keys_fold_update)

lemma dedupe_pages_distinct: "distinct (map fst (dedupe_pages pages))"
  by (simp add: dedupe_pages_def distinct_fold_update)

lemma dedupe_pages_map_of: "map_of (dedupe_pages pages) = map_of (rev pages)"
  by (simp add: dedupe_pages_def map_of_fold_update)

lemma count_distinct_keys:
  "distinct (map fst al) \<Longrightarrow>
   length (filter (\<lambda>r. fst r = k) al) = (if k \<in> fst ` set al then 1 else 0)"
  by (induction al) (auto simp: image_iff)

lemma search_pages_synth:
  "search_pages notion tids = Inr found \<Longrightarrow> (pid, url) \<in> set found \<Longrightarrow> url = public_url pid"
  by (induction tids arbitrary: found)
     (auto simp: notion_search_page_def split: sum.splits option.splits search_response.splits list.splits)

lemma link_pages_link:
  "(pid, url) \<in> set (link_pages links) \<Longrightarrow> url \<in> set links \<and> page_id_from_notion_url url = Some pid"
  by (induction links) (auto split: option.splits if_splits)

lemma resolve_pages_Inr:
  "search_pages notion (task_ids refs) = Inr found \<Longrightarrow>
   resolve_pages notion refs = Inr (dedupe_pages (link_pages (notion_links refs) @ found))"
  by (simp add: resolve_pages_def)

text \<open>A page id decoded from a link is in the canonical form: 32 hexadecimal digits in
  lower case, hyphenated 8-4-4-4-12.\<close>

lemma search_hex32_hex: "search_hex32 url = Some g \<Longrightarrow> is_hex32 g"
  by (induction url) (auto simp: hex32_at_def is_hex32_def split: if_splits)

lemma lower_char_hex: "is_hex c \<Longrightarrow> is_hex (lower_char c) \<and> c \<noteq> CHR ''-''"
proof -
  assume h: "is_hex c"
  show ?thesis
  proof (cases "is_upper c")
    case True
    then have "code c + 32 < 256"
      unfolding is_upper_def by linarith
    then have "code (lower_char c) = code c + 32"
      using True by (simp add: lower_char_def code_def)
    with h True have "is_hex (lower_char c)"
      unfolding is_hex_def is_digit_def is_upper_def by linarith
    with h show ?thesis by (simp add: is_hex_not_hyphen)
  next
    case False
    with h show ?thesis by (simp add: lower_char_def is_hex_not_hyphen)
  qed
qed

lemma page_id_canonical:
  assumes "page_id_from_notion_url url = Some pid"
  shows "\<exists>g. is_hex32 g \<and> pid = hyphenation_8_4_4_4_12 g \<and> length pid = 36"
proof -
  obtain g where g: "search_hex32 url = Some g" and pid: "pid = ensure_uuid_hyphens (lower g)"
    using assms by (auto simp: page_id_from_notion_url_def split: option.splits)
  have hex: "is_hex32 (lower g)"
    using search_hex32_hex [OF g] lower_char_hex
    by (auto simp: is_hex32_def lower_def list_all_iff)
  have same: "remove_char (CHR ''-'') (lower g) = lower g"
    using hex is_hex_not_hyphen
    by (auto simp: remove_char_def is_hex32_def list_all_iff filter_id_conv)
  have "pid = hyphenation_8_4_4_4_12 (lower g)"
    unfolding pid ensure_uuid_hyphens_def Let_def same
    using hex by (simp only: slice_as_groups) (simp add: is_hex32_def)
  with hex show ?thesis
    using hyphenation_length [of "lower g"] by (auto simp: is_hex32_def)
qed

lemma annotate_all_pages:
  "annotate_all reads writes pr_html_url pages = Inr outcomes \<Longrightarrow> map fst outcomes = map fst pages"
  by (induction pages arbitrary: outcomes) (auto split: sum.splits)

text \<open>The annotation step visits every merged record once: no id is annotated twice
  in one run.\<close>

lemma link_pr_annotates_each_id_once:
  assumes "link_pr notion reads writes github pr_html_url refs = Inr run"
  shows "distinct (map fst (annotated run))"
proof -
  obtain found where f: "search_pages notion (task_ids refs) = Inr found"
    using assms by (auto simp: link_pr_def resolve_pages_def split: sum.splits)
  obtain outcomes where o: "annotate_all reads writes pr_html_url
      (dedupe_pages (link_pages (notion_links refs) @ found)) = Inr outcomes"
    and r: "annotated run = outcomes"
    using assms resolve_pages_Inr [OF f]
    by (auto simp: link_pr_def split: sum.splits if_splits comment_response.splits)
  show ?thesis
    using annotate_all_pages [OF o] dedupe_pages_distinct r by simp
qed

lemma lower_char_idem: "lower_char (lower_char c) = lower_char c"
proof (cases "is_upper c")
  case True
  then have "code c + 32 < 256"
    unfolding is_upper_def by linarith
  with True have "code (lower_char c) = code c + 32"
    by (simp add: lower_char_def code_def)
  with True have "\<not> is_upper (lower_char c)"
    unfolding is_upper_def by linarith
  then show ?thesis by (simp add: lower_char_def)
next
  case False
  then show ?thesis by (simp add: lower_char_def)
qed

lemma lower_hyphen: "lower ''-'' = ''-''"
  by (simp add: lower_def lower_char_def is_upper_def code_def)

lemma lower_hyphenation: "lower (hyphenation_8_4_4_4_12 g) = hyphenation_8_4_4_4_12 (lower g)"
proof -
  have app: "lower (a @ b) = lower a @ lower b" for a b
    by (simp add: lower_def)
  have tk: "lower (take n a) = take n (lower a)" and dr: "lower (drop n a) = drop n (lower a)" for n a
    by (simp_all add: lower_def take_map drop_map)
  show ?thesis
    by (simp add: hyphenation_8_4_4_4_12_def app tk dr lower_hyphen del: append_Cons)
qed

lemma page_id_is_canonical:
  assumes "page_id_from_notion_url link = Some pid"
  shows "canonical_id pid"
proof -
  obtain g where g: "search_hex32 link = Some g" and pid: "pid = ensure_uuid_hyphens (lower g)"
    using assms by (auto simp: page_id_from_notion_url_def split: option.splits)
  have hex: "is_hex32 (lower g)"
    using search_hex32_hex [OF g] lower_char_hex
    by (auto simp: is_hex32_def lower_def list_all_iff)
  have same: "remove_char (CHR ''-'') (lower g) = lower g"
    using hex is_hex_not_hyphen
    by (auto simp: remove_char_def is_hex32_def list_all_iff filter_id_conv)
  have p: "pid = hyphenation_8_4_4_4_12 (lower g)"
    unfolding pid ensure_uuid_hyphens_def Let_def same
    using hex by (simp only: slice_as_groups) (simp add: is_hex32_def)
  have low: "lower (lower g) = lower g"
    by (simp add: lower_def lower_char_idem)
  show ?thesis
    unfolding canonical_id_def p
    by (simp add: hyphenation_strip [OF hex] hex lower_hyphenation low)
qed

lemma link_pages_ids:
  "fst ` set (link_pages links)
     = {pid. \<exists>link \<in> set links. page_id_from_notion_url link = Some pid}"
proof (induction links)
  case Nil
  show ?case by simp
next
  case (Cons link links)
  show ?case
  proof (cases "page_id_from_notion_url link")
    case None
    with Cons show ?thesis by auto
  next
    case (Some pid)
    then have "length pid = 36"
      using page_id_canonical by blast
    then have "pid \<noteq> []" by auto
    with Some Cons show ?thesis by auto
  qed
qed

lemma search_pages_ids:
  "search_pages notion tids = Inr found \<Longrightarrow>
   fst ` set found
     = {pid. \<exists>tid \<in> set tids. \<exists>address. notion_search_page (notion tid) = Inr (Some (pid, address))}"
proof (induction tids arbitrary: found)
  case Nil
  then show ?case by simp
next
  case (Cons tid tids)
  from Cons.prems obtain hit rest where
    hit: "notion_search_page (notion tid) = Inr hit" and
    rest: "search_pages notion tids = Inr rest" and
    found: "found = (case hit of None \<Rightarrow> rest | Some page \<Rightarrow> page # rest)"
    by (auto split: sum.splits)
  show ?case
  proof (cases hit)
    case None
    then show ?thesis
      using Cons.IH [OF rest] hit found by auto
  next
    case (Some page)
    then show ?thesis
      using Cons.IH [OF rest] hit found by (cases page) auto
  qed
qed

text \<open>
  Claim C7. The workspace returns page ids in canonical form, and the searches return.
  Then the list handed on by \<open>main\<close> is the merge of the pages decoded from the links and
  the pages found by search; every record in it has a canonical id; and for every id it
  holds exactly one record when some reference resolves to that id, whether a link that
  decodes to it or a short code whose search finds it, and none otherwise.
\<close>

theorem merged_one_record_per_id:
  assumes "search_pages notion (task_ids refs) = Inr found"
    and "list_all (\<lambda>page. canonical_id (fst page)) found"
  shows "resolve_pages notion refs = Inr (dedupe_pages (link_pages (notion_links refs) @ found))
       \<and> list_all (\<lambda>record. canonical_id (fst record))
            (dedupe_pages (link_pages (notion_links refs) @ found))
       \<and> (\<forall>pid. length (filter (\<lambda>record. fst record = pid)
                          (dedupe_pages (link_pages (notion_links refs) @ found)))
                = (if (\<exists>link \<in> set (notion_links refs). page_id_from_notion_url link = Some pid)
                      \<or> (\<exists>tid \<in> set (task_ids refs). \<exists>address.
                            notion_search_page (notion tid) = Inr (Some (pid, address)))
                   then 1 else 0))"
proof -
  let ?pages = "link_pages (notion_links refs) @ found"
  have keys: "fst ` set ?pages
      = {pid. (\<exists>link \<in> set (notion_links refs). page_id_from_notion_url link = Some pid)
              \<or> (\<exists>tid \<in> set (task_ids refs). \<exists>address.
                    notion_search_page (notion tid) = Inr (Some (pid, address)))}"
    using link_pages_ids [of "notion_links refs"] search_pages_ids [OF assms(1)]
    by (simp add: image_Un) blast
  have count: "length (filter (\<lambda>record. fst record = pid) (dedupe_pages ?pages))
      = (if (\<exists>link \<in> set (notion_links refs). page_id_from_notion_url link = Some pid)
            \<or> (\<exists>tid \<in> set (task_ids refs). \<exists>address.
                  notion_search_page (notion tid) = Inr (Some (pid, address)))
         then 1 else 0)" for pid
    using count_distinct_keys [OF dedupe_pages_distinct, of pid ?pages]
    unfolding dedupe_pages_keys keys by simp
  have "canonical_id pid" if "pid \<in> fst ` set ?pages" for pid
  proof -
    from that consider "pid \<in> fst ` set (link_pages (notion_links refs))" | "pid \<in> fst ` set found"
      by auto
    then show ?thesis
    proof cases
      case 1
      then show ?thesis
        unfolding link_pages_ids using page_id_is_canonical by blast
    next
      case 2
      then show ?thesis
        using assms(2) by (auto simp: list_all_iff)
    qed
  qed
  then have "canonical_id (fst entry)" if "entry \<in> set (dedupe_pages ?pages)" for entry
    using that dedupe_pages_keys [of ?pages] by (metis imageI)
  then have canon: "list_all (\<lambda>record. canonical_id (fst record)) (dedupe_pages ?pages)"
    by (simp add: list_all_iff)
  show ?thesis
    using resolve_pages_Inr [OF assms(1)] canon count by blast
qed

theorem merged_one_record_per_id_witness:
  "search_pages
     (\<lambda>q. if q = ''TASK-1'' then SearchResults [Some ''25b6cafc-5b5c-801f-ba02-ea17d3cc4b77'']
           else SearchResults [])
     (task_ids \<lparr>task_ids = [''TASK-1'', ''TASK-2''],
                notion_links = [''https://www.notion.so/T-25B6CAFC5B5C801FBA02EA17D3CC4B77'',
                                ''https://www.notion.so/Spec-0123456789abcdef0123456789abcdef?pvs=4'']\<rparr>)
     = Inr [(''25b6cafc-5b5c-801f-ba02-ea17d3cc4b77'',
             ''https://www.notion.so/25b6cafc5b5c801fba02ea17d3cc4b77'')]
   \<and> list_all (\<lambda>page. canonical_id (fst page))
        [(''25b6cafc-5b5c-801f-ba02-ea17d3cc4b77'',
          ''https://www.notion.so/25b6cafc5b5c801fba02ea17d3cc4b77'')]
   \<and> resolve_pages
        (\<lambda>q. if q = ''TASK-1'' then SearchResults [Some ''25b6cafc-5b5c-801f-ba02-ea17d3cc4b77'']
              else SearchResults [])
        \<lparr>task_ids = [''TASK-1'', ''TASK-2''],
         notion_links = [''https://www.notion.so/T-25B6CAFC5B5C801FBA02EA17D3CC4B77'',
                         ''https://www.notion.so/Spec-0123456789abcdef0123456789abcdef?pvs=4'']\<rparr>
      = Inr [(''25b6cafc-5b5c-801f-ba02-ea17d3cc4b77'',
              ''https://www.notion.so/25b6cafc5b5c801fba02ea17d3cc4b77''),
             (''01234567-89ab-cdef-0123-456789abcdef'',
              ''https://www.notion.so/Spec-0123456789abcdef0123456789abcdef?pvs=4'')]
   \<and> length (filter (\<lambda>record. fst record = ''25b6cafc-5b5c-801f-ba02-ea17d3cc4b77'')
        [(''25b6cafc-5b5c-801f-ba02-ea17d3cc4b77'',
          ''https://www.notion.so/25b6cafc5b5c801fba02ea17d3cc4b77''),
         (''01234567-89ab-cdef-0123-456789abcdef'',
          ''https://www.notion.so/Spec-0123456789abcdef0123456789abcdef?pvs=4'')]) = 1
   \<and> length (filter (\<lambda>record. fst record = ''01234567-89ab-cdef-0123-456789abcdef'')
        [(''25b6cafc-5b5c-801f-ba02-ea17d3cc4b77'',
          ''https://www.notion.so/25b6cafc5b5c801fba02ea17d3cc4b77''),
         (''01234567-89ab-cdef-0123-456789abcdef'',
          ''https://www.notion.so/Spec-0123456789abcdef0123456789abcdef?pvs=4'')]) = 1"
proof -
  let ?notion = "\<lambda>q. if q = ''TASK-1''
      then SearchResults [Some ''25b6cafc-5b5c-801f-ba02-ea17d3cc4b77''] else SearchResults []"
  let ?refs = "\<lparr>task_ids = [''TASK-1'', ''TASK-2''],
      notion_links = [''https://www.notion.so/T-25B6CAFC5B5C801FBA02EA17D3CC4B77'',
                      ''https://www.notion.so/Spec-0123456789abcdef0123456789abcdef?pvs=4'']\<rparr>"
  let ?found = "[(''25b6cafc-5b5c-801f-ba02-ea17d3cc4b77'',
                  ''https://www.notion.so/25b6cafc5b5c801fba02ea17d3cc4b77'')]"
  let ?merged = "[(''25b6cafc-5b5c-801f-ba02-ea17d3cc4b77'',
                   ''https://www.notion.so/25b6cafc5b5c801fba02ea17d3cc4b77''),
                  (''01234567-89ab-cdef-0123-456789abcdef'',
                   ''https://www.notion.so/Spec-0123456789abcdef0123456789abcdef?pvs=4'')]"
  have s: "search_pages ?notion (task_ids ?refs) = Inr ?found"
    by (simp add: notion_search_page_def public_url_def remove_char_def)
  have c: "list_all (\<lambda>page. canonical_id (fst page)) ?found"
    by code_simp
  have m: "dedupe_pages (link_pages (notion_links ?refs) @ ?found) = ?merged"
    by code_simp
  have l: "page_id_from_notion_url (notion_links ?refs ! 1)
      = Some ''01234567-89ab-cdef-0123-456789abcdef''"
    by code_simp
  have t: "notion_search_page (?notion ''TASK-1'')
      = Inr (Some (''25b6cafc-5b5c-801f-ba02-ea17d3cc4b77'',
                   ''https://www.notion.so/25b6cafc5b5c801fba02ea17d3cc4b77''))"
    by (simp add: notion_search_page_def public_url_def remove_char_def)
  note inst = merged_one_record_per_id [OF s c, unfolded m]
  have r: "resolve_pages ?notion ?refs = Inr ?merged"
    using inst by blast
  have "\<exists>link \<in> set (notion_links ?refs).
          page_id_from_notion_url link = Some ''01234567-89ab-cdef-0123-456789abcdef''"
    using l by (intro bexI [of _ "notion_links ?refs ! 1"]) simp_all
  then have b: "length (filter (\<lambda>record. fst record = ''01234567-89ab-cdef-0123-456789abcdef'')
      ?merged) = 1"
    using inst [THEN conjunct2, THEN conjunct2, rule_format,
        of "''01234567-89ab-cdef-0123-456789abcdef''"]
    by (simp only: if_True simp_thms)
  have "\<exists>tid \<in> set (task_ids ?refs). \<exists>address. notion_search_page (?notion tid)
      = Inr (Some (''25b6cafc-5b5c-801f-ba02-ea17d3cc4b77'', address))"
    using t by (intro bexI [of _ "''TASK-1''"] exI) simp_all
  then have a: "length (filter (\<lambda>record. fst record = ''25b6cafc-5b5c-801f-ba02-ea17d3cc4b77'')
      ?merged) = 1"
    using inst [THEN conjunct2, THEN conjunct2, rule_format,
        of "''25b6cafc-5b5c-801f-ba02-ea17d3cc4b77''"]
    by (simp only: if_True simp_thms)
  show ?thesis
    using s c r a b by (intro conjI)
qed

section \<open>Which address a merged record keeps\<close>

text \<open>
  Claim C6 as stated fails. A pull request names a short code in its title and a link in
  its body. The link and the search for the short code resolve to the same record id; the merged record carries the address built from the search result, not
  the link: the pages found by search are written into the dictionary after the pages
  decoded from links, and a later assignment replaces the address.
\<close>

theorem direct_link_not_retained:
  "parse_task_refs ascii_chars ''TASK'' ''Fix login (task-3374)''
       (Some ''See https://www.notion.so/Tasks-25b6cafc5b5c801fba02ea17d3cc4b77'')
       (Some ''fix/login'')
     = \<lparr>task_ids = [''TASK-3374''],
        notion_links = [''https://www.notion.so/Tasks-25b6cafc5b5c801fba02ea17d3cc4b77'']\<rparr>
   \<and> page_id_from_notion_url ''https://www.notion.so/Tasks-25b6cafc5b5c801fba02ea17d3cc4b77''
     = Some ''25b6cafc-5b5c-801f-ba02-ea17d3cc4b77''
   \<and> notion_search_page (SearchResults [Some ''25b6cafc-5b5c-801f-ba02-ea17d3cc4b77''])
     = Inr (Some (''25b6cafc-5b5c-801f-ba02-ea17d3cc4b77'',
                  ''https://www.notion.so/25b6cafc5b5c801fba02ea17d3cc4b77''))
   \<and> resolve_pages (\<lambda>q. SearchResults [Some ''25b6cafc-5b5c-801f-ba02-ea17d3cc4b77''])
       \<lparr>task_ids = [''TASK-3374''],
        notion_links = [''https://www.notion.so/Tasks-25b6cafc5b5c801fba02ea17d3cc4b77'']\<rparr>
     = Inr [(''25b6cafc-5b5c-801f-ba02-ea17d3cc4b77'',
             ''https://www.notion.so/25b6cafc5b5c801fba02ea17d3cc4b77'')]
   \<and> ''https://www.notion.so/25b6cafc5b5c801fba02ea17d3cc4b77''
     \<noteq> ''https://www.notion.so/Tasks-25b6cafc5b5c801fba02ea17d3cc4b77''"
  by code_simp

text \<open>
  Claim C6, amended. Whenever the searches return, the merged record of an id that some
  search resolved to carries the address built from that id,
  \<open>https://www.notion.so/\<close> followed by the id without hyphens, whether or not a link
  resolved to the same id; the record of any other id carries the address of the last
  link that resolved to it.
\<close>

theorem merged_url_last_writer:
  assumes "search_pages notion (task_ids refs) = Inr found"
  shows "resolve_pages notion refs = Inr (dedupe_pages (link_pages (notion_links refs) @ found))
       \<and> (\<forall>pid. map_of (dedupe_pages (link_pages (notion_links refs) @ found)) pid
                = (if pid \<in> fst ` set found then Some (public_url pid)
                   else map_of (rev (link_pages (notion_links refs))) pid))"
proof -
  have "map_of (dedupe_pages (link_pages (notion_links refs) @ found)) pid
      = (if pid \<in> fst ` set found then Some (public_url pid)
         else map_of (rev (link_pages (notion_links refs))) pid)" for pid
  proof (cases "pid \<in> fst ` set found")
    case True
    then have "pid \<in> fst ` set (rev found)"
      by simp
    then obtain url where url: "map_of (rev found) pid = Some url"
      by (metis domD dom_map_of_conv_image_fst)
    then have "(pid, url) \<in> set found"
      using map_of_SomeD by fastforce
    then have "url = public_url pid"
      using assms by (rule search_pages_synth [rotated])
    with url True show ?thesis
      by (simp add: dedupe_pages_map_of map_add_def)
  next
    case False
    then have "pid \<notin> fst ` set (rev found)"
      by simp
    then have "map_of (rev found) pid = None"
      by (simp add: map_of_eq_None_iff)
    with False show ?thesis
      by (simp add: dedupe_pages_map_of map_add_def)
  qed
  then show ?thesis
    using resolve_pages_Inr [OF assms] by blast
qed

theorem merged_url_last_writer_witness:
  "search_pages (\<lambda>q. SearchResults [Some ''25b6cafc-5b5c-801f-ba02-ea17d3cc4b77''])
     (task_ids \<lparr>task_ids = [''TASK-3374''],
                notion_links = [''https://www.notion.so/Tasks-25b6cafc5b5c801fba02ea17d3cc4b77'']\<rparr>)
     = Inr [(''25b6cafc-5b5c-801f-ba02-ea17d3cc4b77'',
             ''https://www.notion.so/25b6cafc5b5c801fba02ea17d3cc4b77'')]
   \<and> map_of (dedupe_pages
        (link_pages [''https://www.notion.so/Tasks-25b6cafc5b5c801fba02ea17d3cc4b77'']
         @ [(''25b6cafc-5b5c-801f-ba02-ea17d3cc4b77'',
             ''https://www.notion.so/25b6cafc5b5c801fba02ea17d3cc4b77'')]))
        ''25b6cafc-5b5c-801f-ba02-ea17d3cc4b77''
     = Some (public_url ''25b6cafc-5b5c-801f-ba02-ea17d3cc4b77'')"
proof -
  have s: "search_pages (\<lambda>q. SearchResults [Some ''25b6cafc-5b5c-801f-ba02-ea17d3cc4b77''])
     (task_ids \<lparr>task_ids = [''TASK-3374''],
                notion_links = [''https://www.notion.so/Tasks-25b6cafc5b5c801fba02ea17d3cc4b77'']\<rparr>)
     = Inr [(''25b6cafc-5b5c-801f-ba02-ea17d3cc4b77'',
             ''https://www.notion.so/25b6cafc5b5c801fba02ea17d3cc4b77'')]"
    by (simp add: notion_search_page_def public_url_def remove_char_def)
  show ?thesis
    using s merged_url_last_writer [OF s, THEN conjunct2, rule_format,
        of "''25b6cafc-5b5c-801f-ba02-ea17d3cc4b77''"]
    by simp
qed

section \<open>Annotating a record: results\<close>

lemma strip_prefix_self: "strip_prefix n (n @ s) = Some s"
  by (induction n) auto

lemma contains_here: "strip_prefix n h \<noteq> None \<Longrightarrow> contains n h"
  by (cases h) (auto elim: strip_prefix.elims)

lemma contains_append: "contains n (p @ n @ s)"
proof (induction p)
  case Nil
  show ?case
    using contains_here [of n "n @ s"] by (simp add: strip_prefix_self)
next
  case (Cons c p)
  then show ?case by simp
qed

lemma contains_iff: "contains n h \<longleftrightarrow> (\<exists>p s. h = p @ n @ s)"
proof
  show "contains n h \<Longrightarrow> \<exists>p s. h = p @ n @ s"
  proof (induction h)
    case Nil
    then show ?case by simp
  next
    case (Cons c cs)
    have pre: "strip_prefix a b = Some r \<Longrightarrow> b = a @ r" for a b r
      by (induction a b rule: strip_prefix.induct) (auto split: if_splits)
    show ?case
    proof (cases "strip_prefix n (c # cs)")
      case None
      with Cons obtain p s where "cs = p @ n @ s" by auto
      then have "c # cs = (c # p) @ n @ s" by simp
      then show ?thesis by blast
    next
      case (Some r)
      then have "c # cs = [] @ n @ r" using pre by simp
      then show ?thesis by blast
    qed
  qed
next
  assume "\<exists>p s. h = p @ n @ s"
  then show "contains n h" using contains_append by auto
qed




section \<open>Signature verification: results\<close>

lemma code_less: "code c < 256"
proof -
  have "code c mod 256 = code c"
    by (simp add: code_def)
  moreover have "code c mod 256 < 256"
    by simp
  ultimately show ?thesis by simp
qed

lemma code_eq_iff: "code x = code y \<longleftrightarrow> x = y"
  by (simp add: code_def)

lemma word_xor_zero: "(a :: 32 word) XOR b = 0 \<longleftrightarrow> a = b"
proof
  assume h: "a XOR b = 0"
  have "a = (a XOR b) XOR b"
    by (simp add: xor.assoc)
  with h show "a = b" by simp
qed simp

lemma char_xor_zero:
  "(of_nat (code x) :: 32 word) XOR of_nat (code y) = 0 \<longleftrightarrow> x = y"
proof -
  have "take_bit 32 (code c) = code c" for c
    using code_less [of c] by (simp add: take_bit_nat_eq_self)
  then have "(of_nat (code x) :: 32 word) = of_nat (code y) \<longleftrightarrow> code x = code y"
    by (simp add: word_of_nat_eq_iff)
  then show ?thesis
    by (simp add: word_xor_zero code_eq_iff)
qed

lemma fold_or_zero:
  "fold (\<lambda>(x, y) r. r OR (of_nat (code x) XOR of_nat (code y))) ps (r0 :: 32 word) = 0
     \<longleftrightarrow> r0 = 0 \<and> list_all (\<lambda>(x, y). x = y) ps"
proof (induction ps arbitrary: r0)
  case Nil
  show ?case by simp
next
  case (Cons p ps)
  obtain x y where p: "p = (x, y)"
    by (cases p)
  have "fold (\<lambda>(x, y) r. r OR (of_nat (code x) XOR of_nat (code y))) (p # ps) r0 = 0
      \<longleftrightarrow> (r0 OR (of_nat (code x) XOR of_nat (code y))) = 0 \<and> list_all (\<lambda>(x, y). x = y) ps"
    unfolding p using Cons [of "r0 OR (of_nat (code x) XOR of_nat (code y))"] by simp
  also have "\<dots> \<longleftrightarrow> r0 = 0 \<and> x = y \<and> list_all (\<lambda>(x, y). x = y) ps"
    by (simp only: or_eq_0_iff char_xor_zero conj_assoc)
  finally show ?case
    unfolding p by simp
qed

lemma zip_all_eq: "length a = length b \<Longrightarrow> list_all (\<lambda>(x, y). x = y) (zip a b) \<longleftrightarrow> a = b"
  by (induction a b rule: list_induct2) simp_all

lemma timingSafeEqualB64_iff: "timingSafeEqualB64 a b \<longleftrightarrow> a = b"
proof (cases "length a = length b")
  case True
  then show ?thesis
    by (simp add: timingSafeEqualB64_def fold_or_zero zip_all_eq)
next
  case False
  then have "a \<noteq> b" by auto
  with False show ?thesis
    by (simp add: timingSafeEqualB64_def)
qed

lemma timingSafeEq_iff: "timingSafeEq a b \<longleftrightarrow> a = b"
  by (simp add: timingSafeEq_def timingSafeEqualB64_iff)

lemma btoa_Nil_iff: "btoa bs = [] \<longleftrightarrow> bs = []"
  by (cases bs rule: btoa.cases) simp_all

lemma bytesToHex_Nil_iff: "bytesToHex bs = [] \<longleftrightarrow> bs = []"
  by (cases bs) (simp_all add: bytesToHex_def)

lemma split_on_not_Nil: "split_on sep s \<noteq> []"
  by (induction s) (auto split: list.splits)

lemma split_on_hd: "hd (split_on sep s) = takeWhile (\<lambda>c. c \<noteq> sep) s"
proof (induction s)
  case Nil
  show ?case by simp
next
  case (Cons c cs)
  obtain p ps where ps: "split_on sep cs = p # ps"
    using split_on_not_Nil [of sep cs] by (cases "split_on sep cs") auto
  with Cons show ?case by simp
qed

lemma split_on_second:
  "sep \<in> set s \<Longrightarrow> nth_opt (split_on sep s) 1
     = Some (takeWhile (\<lambda>c. c \<noteq> sep) (tl (dropWhile (\<lambda>c. c \<noteq> sep) s)))"
proof (induction s)
  case Nil
  then show ?case by simp
next
  case (Cons c cs)
  obtain p ps where ps: "split_on sep cs = p # ps"
    using split_on_not_Nil [of sep cs] by (cases "split_on sep cs") auto
  show ?case
  proof (cases "c = sep")
    case True
    have "p = takeWhile (\<lambda>c. c \<noteq> sep) cs"
      using split_on_hd [of sep cs] ps by simp
    then show ?thesis
      using True ps by (simp add: nth_opt_def)
  next
    case False
    with Cons have "nth_opt (p # ps) 1
      = Some (takeWhile (\<lambda>c. c \<noteq> sep) (tl (dropWhile (\<lambda>c. c \<noteq> sep) cs)))"
      by (simp add: ps)
    then show ?thesis
      using False ps by (simp add: nth_opt_def split: if_splits)
  qed
qed

lemma provided_of_Some:
  "provided_of hdr = Some (if CHR ''='' \<in> set hdr
      then takeWhile (\<lambda>c. c \<noteq> CHR ''='') (tl (dropWhile (\<lambda>c. c \<noteq> CHR ''='') hdr))
      else hdr)"
  using split_on_second [of "CHR ''=''" hdr] by (simp add: provided_of_def del: One_nat_def)

lemma btoa_padded: "length bs mod 3 \<noteq> 0 \<Longrightarrow> CHR ''='' \<in> set (btoa bs)"
  by (induction bs rule: btoa.induct) simp_all

lemma split_on_no_sep: "p \<in> set (split_on sep s) \<Longrightarrow> sep \<notin> set p"
proof (induction s arbitrary: p)
  case Nil
  then show ?case by simp
next
  case (Cons c cs)
  obtain q qs where qs: "split_on sep cs = q # qs"
    using split_on_not_Nil [of sep cs] by (cases "split_on sep cs") auto
  have q: "sep \<notin> set q" and rest: "\<And>r. r \<in> set qs \<Longrightarrow> sep \<notin> set r"
    using Cons.IH qs by simp_all
  show ?case
    using Cons.prems q rest qs by (auto split: if_splits)
qed

lemma provided_of_no_equals: "provided_of hdr = Some p \<Longrightarrow> CHR ''='' \<notin> set p"
proof (cases "CHR ''='' \<in> set hdr")
  case True
  assume "provided_of hdr = Some p"
  with True have "p \<in> set (split_on (CHR ''='') hdr)"
    by (auto simp: provided_of_def nth_opt_def split: if_splits)
  then show ?thesis by (rule split_on_no_sep)
next
  case False
  assume "provided_of hdr = Some p"
  with False show ?thesis by (simp add: provided_of_def)
qed

text \<open>
  The value compared never holds an equals sign, and the base64 form of a digest whose
  length is no multiple of three ends in one: for the 20 bytes of HMAC-SHA-1, no header
  passes \<open>verifyHmacSha1Base64\<close>.
\<close>

lemma verifyHmacSha1Base64_never:
  assumes "length (hmac_sha1 w secret bodyText) = 20"
  shows "\<not> verifyHmacSha1Base64 w bodyText secret hdr"
proof (cases "provided_of hdr")
  case None
  then show ?thesis by (simp add: verifyHmacSha1Base64_def)
next
  case (Some p)
  have "CHR ''='' \<in> set (btoa (hmac_sha1 w secret bodyText))"
    using assms by (intro btoa_padded) simp
  moreover have "CHR ''='' \<notin> set p"
    using Some by (rule provided_of_no_equals)
  ultimately have "p \<noteq> btoa (hmac_sha1 w secret bodyText)"
    by auto
  with Some show ?thesis
    by (simp add: verifyHmacSha1Base64_def timingSafeEqualB64_iff)
qed

text \<open>
  Claim C1, at the signature the repository's test script sends for the sample delivery:
  the digest in base64 after the prefix \<open>sha1=\<close>. The text after the first equals sign is
  the whole digest with its padding; the value the verifier compares has lost the
  padding, and the correctly signed delivery is refused. The digest in hexadecimal,
  which holds no equals sign, passes the extended worker.
\<close>

theorem split_drops_base64_padding:
  "provided_of ''sha1=ceiaFcr5/h4kdyV31iow1L4AwTo='' = Some ''ceiaFcr5/h4kdyV31iow1L4AwTo''
   \<and> btoa (hmac_sha1 (sample_world sample_payload (\<lambda>out. Fetch_failed)) sample_secret sample_raw)
       = ''ceiaFcr5/h4kdyV31iow1L4AwTo=''
   \<and> \<not> verifyHmacSha1Base64 (sample_world sample_payload (\<lambda>out. Fetch_failed)) sample_raw
         sample_secret ''sha1=ceiaFcr5/h4kdyV31iow1L4AwTo=''
   \<and> verify_ext (sample_world sample_payload (\<lambda>out. Fetch_failed)) sample_secret
         (sample_request (Some ''sha1=ceiaFcr5/h4kdyV31iow1L4AwTo='')) = Inr False
   \<and> verify_ext (sample_world sample_payload (\<lambda>out. Fetch_failed)) sample_secret
         (sample_request (Some ''sha1=71e89a15caf9fe1e24772577d62a30d4be00c13a'')) = Inr True"
  by code_simp

section \<open>A failed signature check: results\<close>

lemma json_valid: "200 \<le> st \<Longrightarrow> st \<le> 599 \<Longrightarrow> st \<noteq> 204 \<Longrightarrow> st \<noteq> 205 \<Longrightarrow> st \<noteq> 304 \<Longrightarrow>
   json obj st = Inr \<lparr>resp_status = st, resp_body = Some obj\<rparr>"
  by (simp add: json_def new_response_def)

lemma absent_header_fails:
  assumes "hmac_sha1 w secret bodyText \<noteq> []"
  shows "\<not> verifyHmacSha1Base64 w bodyText secret (str_or None [])"
  using assms btoa_Nil_iff [of "hmac_sha1 w secret bodyText"]
  by (auto simp: verifyHmacSha1Base64_def provided_of_def str_or_def timingSafeEqualB64_iff)

lemma absent_header_fails_ext:
  assumes "hmac_sha1 w secret (req_body rq) \<noteq> []" and "hmac_sha256 w secret (req_body rq) \<noteq> []"
    and "req_header rq ''expo-signature'' = None" and "req_header rq ''Expo-Signature'' = None"
  shows "verify_ext w secret rq = Inr False"
proof -
  have "provided_of (sig_header_ext rq) = Some []"
    using assms(3,4) by (simp add: sig_header_ext_def str_or_def provided_of_def)
  moreover have "signature_match [] (computeHmacs w (req_body rq) secret)
      = ([Sha1_b64, Sha1_hex, Sha256_b64, Sha256_hex], False)"
    using assms(1,2) btoa_Nil_iff [of "hmac_sha1 w secret (req_body rq)"]
      btoa_Nil_iff [of "hmac_sha256 w secret (req_body rq)"]
      bytesToHex_Nil_iff [of "hmac_sha1 w secret (req_body rq)"]
      bytesToHex_Nil_iff [of "hmac_sha256 w secret (req_body rq)"]
    by (auto simp: signature_match_def computeHmacs_def Let_def timingSafeEq_iff bytesToB64_def)
  ultimately show ?thesis
    by (simp add: verify_ext_def)
qed

text \<open>
  Claim C2. A secret is configured and the request is a \<open>POST\<close> (on a handled path, for
  the extended worker). When the signature check fails, either worker answers 401 with
  the error \<open>Invalid signature\<close> and its trace is empty: the body was not parsed as JSON
  and no outbound call was made. An absent signature header fails the check of either
  worker, the digests being non-empty.
\<close>

theorem failed_signature_rejected:
  assumes "is_set (EXPO_WEBHOOK_SECRET e)" and "req_method rq = ''POST''"
  shows "(\<not> verifyHmacSha1Base64 w (req_body rq) (str_or (EXPO_WEBHOOK_SECRET e) [])
              (str_or (req_header rq ''expo-signature'') [])
          \<longrightarrow> fetch_worker w e rq
                = ([], Inr \<lparr>resp_status = 401,
                            resp_body = Some (error_body ''Invalid signature'')\<rparr>))
       \<and> (req_pathname rq \<in> set HANDLED_PATHS
            \<and> verify_ext w (str_or (EXPO_WEBHOOK_SECRET e) []) rq = Inr False
          \<longrightarrow> fetch_worker_ext w e rq
                = ([], Inr \<lparr>resp_status = 401,
                            resp_body = Some (error_body ''Invalid signature'')\<rparr>))
       \<and> (req_header rq ''expo-signature'' = None
            \<and> hmac_sha1 w (str_or (EXPO_WEBHOOK_SECRET e) []) (req_body rq) \<noteq> []
          \<longrightarrow> \<not> verifyHmacSha1Base64 w (req_body rq) (str_or (EXPO_WEBHOOK_SECRET e) [])
                  (str_or (req_header rq ''expo-signature'') []))
       \<and> (req_header rq ''expo-signature'' = None \<and> req_header rq ''Expo-Signature'' = None
            \<and> hmac_sha1 w (str_or (EXPO_WEBHOOK_SECRET e) []) (req_body rq) \<noteq> []
            \<and> hmac_sha256 w (str_or (EXPO_WEBHOOK_SECRET e) []) (req_body rq) \<noteq> []
          \<longrightarrow> verify_ext w (str_or (EXPO_WEBHOOK_SECRET e) []) rq = Inr False)"
proof -
  have r401: "json (error_body ''Invalid signature'') 401
      = Inr \<lparr>resp_status = 401, resp_body = Some (error_body ''Invalid signature'')\<rparr>"
    by (simp add: json_valid)
  have a: "fetch_worker w e rq
      = ([], Inr \<lparr>resp_status = 401, resp_body = Some (error_body ''Invalid signature'')\<rparr>)"
    if "\<not> verifyHmacSha1Base64 w (req_body rq) (str_or (EXPO_WEBHOOK_SECRET e) [])
            (str_or (req_header rq ''expo-signature'') [])"
    using that assms by (simp add: fetch_worker_def r401)
  have b: "fetch_worker_ext w e rq
      = ([], Inr \<lparr>resp_status = 401, resp_body = Some (error_body ''Invalid signature'')\<rparr>)"
    if "req_pathname rq \<in> set HANDLED_PATHS"
      and "verify_ext w (str_or (EXPO_WEBHOOK_SECRET e) []) rq = Inr False"
    using that assms by (simp add: fetch_worker_ext_def r401)
  have c: "\<not> verifyHmacSha1Base64 w (req_body rq) (str_or (EXPO_WEBHOOK_SECRET e) [])
              (str_or (req_header rq ''expo-signature'') [])"
    if "req_header rq ''expo-signature'' = None"
      and "hmac_sha1 w (str_or (EXPO_WEBHOOK_SECRET e) []) (req_body rq) \<noteq> []"
    using absent_header_fails [OF that(2)] that(1) by simp
  have d: "verify_ext w (str_or (EXPO_WEBHOOK_SECRET e) []) rq = Inr False"
    if "req_header rq ''expo-signature'' = None" and "req_header rq ''Expo-Signature'' = None"
      and "hmac_sha1 w (str_or (EXPO_WEBHOOK_SECRET e) []) (req_body rq) \<noteq> []"
      and "hmac_sha256 w (str_or (EXPO_WEBHOOK_SECRET e) []) (req_body rq) \<noteq> []"
    using that by (intro absent_header_fails_ext)
  show ?thesis
    using a b c d by blast
qed

theorem failed_signature_rejected_witness:
  "is_set (EXPO_WEBHOOK_SECRET sample_env)
   \<and> req_method (sample_request None) = ''POST''
   \<and> req_pathname (sample_request None) \<in> set HANDLED_PATHS
   \<and> req_header (sample_request None) ''expo-signature'' = None
   \<and> fetch_worker (sample_world sample_payload (\<lambda>out. Fetched 200 ''ok'')) sample_env
        (sample_request None)
      = ([], Inr \<lparr>resp_status = 401, resp_body = Some (error_body ''Invalid signature'')\<rparr>)
   \<and> fetch_worker_ext (sample_world sample_payload (\<lambda>out. Fetched 200 ''ok'')) sample_env
        (sample_request None)
      = ([], Inr \<lparr>resp_status = 401, resp_body = Some (error_body ''Invalid signature'')\<rparr>)"
proof -
  have s: "is_set (EXPO_WEBHOOK_SECRET sample_env)"
    by (simp add: sample_env_def sample_secret_def is_set_def)
  have m: "req_method (sample_request None) = ''POST''"
    and p: "req_pathname (sample_request None) \<in> set HANDLED_PATHS"
    and h: "req_header (sample_request None) ''expo-signature'' = None"
      "req_header (sample_request None) ''Expo-Signature'' = None"
    by (simp_all add: sample_request_def HANDLED_PATHS_def)
  have d: "hmac_sha1 (sample_world sample_payload (\<lambda>out. Fetched 200 ''ok''))
             (str_or (EXPO_WEBHOOK_SECRET sample_env) []) (req_body (sample_request None)) \<noteq> []"
    "hmac_sha256 (sample_world sample_payload (\<lambda>out. Fetched 200 ''ok''))
             (str_or (EXPO_WEBHOOK_SECRET sample_env) []) (req_body (sample_request None)) \<noteq> []"
    by (simp_all add: sample_world_def sample_sha1_def sample_sha256_def)
  show ?thesis
    using s m p h d
      failed_signature_rejected [OF s m, of "sample_world sample_payload (\<lambda>out. Fetched 200 ''ok'')"]
    by simp
qed

section \<open>The order of the digests: results\<close>



section \<open>A failed dispatch: results\<close>

lemma resolve_notion_events:
  "ev \<in> set (fst (resolve_notion w e t)) \<Longrightarrow> \<exists>out. ev = Notion_search out"
  by (auto simp: resolve_notion_def Let_def split: if_splits)

lemma resolve_notion_ext_events:
  "ev \<in> set (fst (resolve_notion_ext w e t)) \<Longrightarrow> \<exists>out. ev = Notion_search out"
  by (auto simp: resolve_notion_ext_def Let_def split: if_splits)

lemma dispatch_slack_surfaced:
  assumes "remote w out = Fetched st detail" and "\<not> status_ok st"
  shows "(Slack_post out \<in> set (fst (dispatch_slack w e m)) \<longrightarrow>
            snd (dispatch_slack w e m)
              = Inr \<lparr>resp_status = 500, resp_body = Some (failure_body ''Slack error'' detail)\<rparr>)
       \<and> Github_dispatch out \<notin> set (fst (dispatch_slack w e m))"
  using assms by (auto simp: dispatch_slack_def Let_def json_valid)

lemma dispatch_github_surfaced:
  assumes "remote w out = Fetched st detail" and "\<not> status_ok st"
  shows "(Github_dispatch out \<in> set (fst (dispatch_github w e p)) \<longrightarrow>
            snd (dispatch_github w e p) = json (failure_body ''GitHub dispatch failed'' detail) st)
       \<and> Slack_post out \<notin> set (fst (dispatch_github w e p))"
  using assms by (auto simp: dispatch_github_def Let_def)

lemma dispatch_surfaced:
  assumes "remote w out = Fetched st detail" and "\<not> status_ok st"
  shows "(Slack_post out \<in> set (fst (dispatch w e n t u)) \<longrightarrow>
            snd (dispatch w e n t u)
              = Inr \<lparr>resp_status = 500, resp_body = Some (failure_body ''Slack error'' detail)\<rparr>)
       \<and> (Github_dispatch out \<in> set (fst (dispatch w e n t u)) \<longrightarrow>
            snd (dispatch w e n t u) = json (failure_body ''GitHub dispatch failed'' detail) st)"
  using dispatch_slack_surfaced [OF assms] dispatch_github_surfaced [OF assms]
  by (simp add: dispatch_def)

lemma dispatch_ext_surfaced:
  assumes "remote w out = Fetched st detail" and "\<not> status_ok st"
  shows "(Slack_post out \<in> set (fst (dispatch_ext w e n t u p)) \<longrightarrow>
            snd (dispatch_ext w e n t u p)
              = Inr \<lparr>resp_status = 500, resp_body = Some (failure_body ''Slack error'' detail)\<rparr>)
       \<and> (Github_dispatch out \<in> set (fst (dispatch_ext w e n t u p)) \<longrightarrow>
            snd (dispatch_ext w e n t u p) = json (failure_body ''GitHub dispatch failed'' detail) st)"
  using dispatch_slack_surfaced [OF assms] dispatch_github_surfaced [OF assms]
  by (simp add: dispatch_ext_def)

lemma relay_surfaced:
  assumes "remote w out = Fetched st detail" and "\<not> status_ok st"
  shows "(Slack_post out \<in> set (fst (relay w e rq)) \<longrightarrow>
            snd (relay w e rq)
              = Inr \<lparr>resp_status = 500, resp_body = Some (failure_body ''Slack error'' detail)\<rparr>)
       \<and> (Github_dispatch out \<in> set (fst (relay w e rq)) \<longrightarrow>
            snd (relay w e rq) = json (failure_body ''GitHub dispatch failed'' detail) st)"
  using dispatch_surfaced [OF assms] resolve_notion_events [of _ w e]
  by (fastforce simp: relay_def Let_def)

lemma act_on_preview_surfaced:
  assumes "remote w out = Fetched st detail" and "\<not> status_ok st"
  shows "(Slack_post out \<in> set (fst (act_on_preview w e n p)) \<longrightarrow>
            snd (act_on_preview w e n p)
              = Inr \<lparr>resp_status = 500, resp_body = Some (failure_body ''Slack error'' detail)\<rparr>)
       \<and> (Github_dispatch out \<in> set (fst (act_on_preview w e n p)) \<longrightarrow>
            snd (act_on_preview w e n p) = json (failure_body ''GitHub dispatch failed'' detail) st)"
  using dispatch_ext_surfaced [OF assms] resolve_notion_ext_events [of _ w e]
  by (fastforce simp: act_on_preview_def Let_def)

lemma filter_profile_surfaced:
  assumes "remote w out = Fetched st detail" and "\<not> status_ok st"
  shows "(Slack_post out \<in> set (fst (filter_profile w e rq)) \<longrightarrow>
            snd (filter_profile w e rq)
              = Inr \<lparr>resp_status = 500, resp_body = Some (failure_body ''Slack error'' detail)\<rparr>)
       \<and> (Github_dispatch out \<in> set (fst (filter_profile w e rq)) \<longrightarrow>
            snd (filter_profile w e rq) = json (failure_body ''GitHub dispatch failed'' detail) st)"
  using act_on_preview_surfaced [OF assms]
  by (auto simp: filter_profile_def Let_def split: json_value.splits)

lemma fetch_worker_surfaced:
  assumes "remote w out = Fetched st detail" and "\<not> status_ok st"
  shows "(Slack_post out \<in> set (fst (fetch_worker w e rq)) \<longrightarrow>
            snd (fetch_worker w e rq)
              = Inr \<lparr>resp_status = 500, resp_body = Some (failure_body ''Slack error'' detail)\<rparr>)
       \<and> (Github_dispatch out \<in> set (fst (fetch_worker w e rq)) \<longrightarrow>
            snd (fetch_worker w e rq) = json (failure_body ''GitHub dispatch failed'' detail) st)"
  using relay_surfaced [OF assms]
  by (simp add: fetch_worker_def)

lemma fetch_worker_ext_surfaced:
  assumes "remote w out = Fetched st detail" and "\<not> status_ok st"
  shows "(Slack_post out \<in> set (fst (fetch_worker_ext w e rq)) \<longrightarrow>
            snd (fetch_worker_ext w e rq)
              = Inr \<lparr>resp_status = 500, resp_body = Some (failure_body ''Slack error'' detail)\<rparr>)
       \<and> (Github_dispatch out \<in> set (fst (fetch_worker_ext w e rq)) \<longrightarrow>
            snd (fetch_worker_ext w e rq) = json (failure_body ''GitHub dispatch failed'' detail) st)"
  using filter_profile_surfaced [OF assms]
  by (simp add: fetch_worker_ext_def split: sum.splits)

text \<open>
  Claim C4 as stated fails. The sample delivery reaches the worker of \<open>src/worker.ts\<close> in
  re-dispatch mode, the repository endpoint answers 404, and the worker answers 404, not
  500: it hands on the status it received.
\<close>

theorem github_failure_keeps_status:
  "fetch_worker (sample_world sample_payload (\<lambda>out. Fetched 404 ''Not Found''))
     (sample_env\<lparr>EXPO_WEBHOOK_SECRET := None, DISPATCH_TO_GITHUB := Some ''true'',
                 GH_REPO_DISPATCH_TOKEN := Some ''ghp_token''\<rparr>)
     (sample_request None)
   = ([Parsed_body,
       Github_dispatch
         (github_request sample_env ''ghp_token''
            (client_payload_of (read_notification sample_payload) ''SPR-3374'' []))],
      Inr \<lparr>resp_status = 404,
           resp_body = Some (failure_body ''GitHub dispatch failed'' ''Not Found'')\<rparr>)"
  by code_simp

text \<open>
  Claim C4, amended. In either worker, when the call to the chosen destination returns a
  status outside 200 to 299, the failure is the handler's answer, with the text the
  destination returned as its detail: for the chat hook the status is 500 and the error
  \<open>Slack error\<close>; for the repository dispatch the error is \<open>GitHub dispatch failed\<close> and the
  status is the one the repository endpoint returned, which need not be 500.
\<close>

theorem dispatch_failure_surfaced:
  assumes "handler = fetch_worker \<or> handler = fetch_worker_ext"
    and "remote w out = Fetched st detail" and "\<not> status_ok st"
  shows "(Slack_post out \<in> set (fst (handler w e rq)) \<longrightarrow>
            snd (handler w e rq)
              = Inr \<lparr>resp_status = 500, resp_body = Some (failure_body ''Slack error'' detail)\<rparr>)
       \<and> (Github_dispatch out \<in> set (fst (handler w e rq)) \<longrightarrow>
            snd (handler w e rq) = json (failure_body ''GitHub dispatch failed'' detail) st
            \<and> (300 \<le> st \<and> st \<le> 599 \<and> st \<noteq> 304 \<longrightarrow>
                 snd (handler w e rq)
                   = Inr \<lparr>resp_status = st,
                          resp_body = Some (failure_body ''GitHub dispatch failed'' detail)\<rparr>))"
proof -
  have valid: "json (failure_body ''GitHub dispatch failed'' detail) st
      = Inr \<lparr>resp_status = st, resp_body = Some (failure_body ''GitHub dispatch failed'' detail)\<rparr>"
    if "300 \<le> st \<and> st \<le> 599 \<and> st \<noteq> 304"
    using that by (intro json_valid) simp_all
  from assms(1) show ?thesis
  proof
    assume "handler = fetch_worker"
    then show ?thesis
      using fetch_worker_surfaced [OF assms(2,3), of e rq] valid by simp
  next
    assume "handler = fetch_worker_ext"
    then show ?thesis
      using fetch_worker_ext_surfaced [OF assms(2,3), of e rq] valid by simp
  qed
qed

theorem dispatch_failure_surfaced_witness:
  "remote (sample_world sample_payload (\<lambda>out. Fetched 503 ''down''))
       (slack_request ''https://hooks.slack.com/services/T0/B0/X0''
          (slack_text (sample_world sample_payload (\<lambda>out. Fetched 503 ''down''))
             (read_notification sample_payload) ''SPR-3374'' []))
     = Fetched 503 ''down''
   \<and> \<not> status_ok 503
   \<and> Slack_post (slack_request ''https://hooks.slack.com/services/T0/B0/X0''
          (slack_text (sample_world sample_payload (\<lambda>out. Fetched 503 ''down''))
             (read_notification sample_payload) ''SPR-3374'' []))
       \<in> set (fst (fetch_worker (sample_world sample_payload (\<lambda>out. Fetched 503 ''down''))
                      (sample_env\<lparr>EXPO_WEBHOOK_SECRET := None\<rparr>) (sample_request None)))
   \<and> snd (fetch_worker (sample_world sample_payload (\<lambda>out. Fetched 503 ''down''))
            (sample_env\<lparr>EXPO_WEBHOOK_SECRET := None\<rparr>) (sample_request None))
       = Inr \<lparr>resp_status = 500, resp_body = Some (failure_body ''Slack error'' ''down'')\<rparr>"
proof -
  have r: "remote (sample_world sample_payload (\<lambda>out. Fetched 503 ''down''))
       (slack_request ''https://hooks.slack.com/services/T0/B0/X0''
          (slack_text (sample_world sample_payload (\<lambda>out. Fetched 503 ''down''))
             (read_notification sample_payload) ''SPR-3374'' []))
     = Fetched 503 ''down''"
    by (simp add: sample_world_def)
  have n: "\<not> status_ok 503"
    by (simp add: status_ok_def)
  have t: "Slack_post (slack_request ''https://hooks.slack.com/services/T0/B0/X0''
          (slack_text (sample_world sample_payload (\<lambda>out. Fetched 503 ''down''))
             (read_notification sample_payload) ''SPR-3374'' []))
       \<in> set (fst (fetch_worker (sample_world sample_payload (\<lambda>out. Fetched 503 ''down''))
                      (sample_env\<lparr>EXPO_WEBHOOK_SECRET := None\<rparr>) (sample_request None)))"
    by code_simp
  show ?thesis
    using r n t dispatch_failure_surfaced [of fetch_worker, OF _ r n,
        of "sample_env\<lparr>EXPO_WEBHOOK_SECRET := None\<rparr>" "sample_request None"]
    by simp
qed

section \<open>The profile filter: results\<close>

lemma skip_response: "new_response None 204 = Inr \<lparr>resp_status = 204, resp_body = None\<rparr>"
  by (simp add: new_response_def)

lemma verified_reaches_filter:
  assumes "req_pathname rq \<in> set HANDLED_PATHS" and "req_method rq = ''POST''"
    and "\<not> is_set (EXPO_WEBHOOK_SECRET e)
         \<or> verify_ext w (str_or (EXPO_WEBHOOK_SECRET e) []) rq = Inr True"
  shows "fetch_worker_ext w e rq = filter_profile w e rq"
  using assms by (auto simp: fetch_worker_ext_def)

lemma read_profile_default:
  assumes "member_of ''buildProfile'' (member_of ''metadata'' (Some b)) = None"
    and "member_of ''appBuildProfile'' (member_of ''metadata'' (Some b)) = None"
    and "member_of ''profile'' (member_of ''metadata'' (Some b)) = None"
  shows "read_profile b = JStr ''unknown''"
  using assms by (simp add: read_profile_def or_else_def)

text \<open>A profile that is no string: the handler throws after parsing, before any call.\<close>

lemma non_string_profile_throws:
  assumes "req_pathname rq \<in> set HANDLED_PATHS" and "req_method rq = ''POST''"
    and "\<not> is_set (EXPO_WEBHOOK_SECRET e)
         \<or> verify_ext w (str_or (EXPO_WEBHOOK_SECRET e) []) rq = Inr True"
    and "\<forall>s. read_profile (safeJson w (req_body rq)) \<noteq> JStr s"
  shows "fetch_worker_ext w e rq = ([Parsed_body], Inl TypeError)"
  using assms(4) unfolding verified_reaches_filter [OF assms(1-3)]
  by (auto simp: filter_profile_def Let_def split: json_value.splits)

text \<open>
  Claim C9, at a delivery to the extended worker, with no secret configured, that
  declares the build profile \<open>5\<close>. The profile does not match \<open>preview\<close>, so by the claim
  the handler skips the delivery and answers 204. The handler parses the body and then
  throws a \<open>TypeError\<close> at \<open>profile.toLowerCase()\<close>: it makes no outbound call, and it
  gives no answer.
\<close>

theorem numeric_profile_throws:
  "fetch_worker_ext
     (sample_world (JObj [(''metadata'', JObj [(''buildProfile'', JNum 5)])])
        (\<lambda>out. Fetched 200 ''ok''))
     (sample_env\<lparr>EXPO_WEBHOOK_SECRET := None\<rparr>)
     (sample_request None)
   = ([Parsed_body], Inl TypeError)"
  by code_simp

text \<open>
  Where the filter does skip. For every verified delivery to the extended worker (a
  \<open>POST\<close> on a handled path, with no secret configured or with a signature that matched)
  whose declared build profile is a string that does not match \<open>preview\<close> when case is
  ignored, and for every one that declares none, which makes the profile \<open>unknown\<close>: the
  handler parses the body and does nothing else, so it makes no outbound call, and it
  answers 204 with no body.
\<close>

theorem non_preview_profile_skipped:
  assumes "req_pathname rq \<in> set HANDLED_PATHS" and "req_method rq = ''POST''"
    and "\<not> is_set (EXPO_WEBHOOK_SECRET e)
         \<or> verify_ext w (str_or (EXPO_WEBHOOK_SECRET e) []) rq = Inr True"
  shows "(read_profile (safeJson w (req_body rq)) = JStr profile \<and> lower profile \<noteq> ''preview''
          \<longrightarrow> fetch_worker_ext w e rq
                = ([Parsed_body], Inr \<lparr>resp_status = 204, resp_body = None\<rparr>))
       \<and> (member_of ''buildProfile'' (member_of ''metadata'' (Some (safeJson w (req_body rq)))) = None
            \<and> member_of ''appBuildProfile'' (member_of ''metadata'' (Some (safeJson w (req_body rq)))) = None
            \<and> member_of ''profile'' (member_of ''metadata'' (Some (safeJson w (req_body rq)))) = None
          \<longrightarrow> fetch_worker_ext w e rq
                = ([Parsed_body], Inr \<lparr>resp_status = 204, resp_body = None\<rparr>))"
proof -
  have skip: "fetch_worker_ext w e rq = ([Parsed_body], Inr \<lparr>resp_status = 204, resp_body = None\<rparr>)"
    if "read_profile (safeJson w (req_body rq)) = JStr p" and "lower p \<noteq> ''preview''" for p
    unfolding verified_reaches_filter [OF assms]
    using that by (simp add: filter_profile_def Let_def skip_response)
  have unknown: "lower ''unknown'' \<noteq> ''preview''"
    by (simp add: lower_def lower_char_def is_upper_def code_def)
  show ?thesis
    using skip [of profile] skip [of "''unknown''", OF read_profile_default unknown]
    by blast
qed

theorem non_preview_profile_skipped_witness:
  "req_pathname (sample_request None) \<in> set HANDLED_PATHS
   \<and> req_method (sample_request None) = ''POST''
   \<and> \<not> is_set (EXPO_WEBHOOK_SECRET (sample_env\<lparr>EXPO_WEBHOOK_SECRET := None\<rparr>))
   \<and> read_profile (safeJson
         (sample_world (JObj [(''metadata'', JObj [(''buildProfile'', JStr ''Production'')])])
            (\<lambda>out. Fetched 200 ''ok''))
         (req_body (sample_request None))) = JStr ''Production''
   \<and> lower ''Production'' \<noteq> ''preview''
   \<and> fetch_worker_ext
         (sample_world (JObj [(''metadata'', JObj [(''buildProfile'', JStr ''Production'')])])
            (\<lambda>out. Fetched 200 ''ok''))
         (sample_env\<lparr>EXPO_WEBHOOK_SECRET := None\<rparr>)
         (sample_request None)
       = ([Parsed_body], Inr \<lparr>resp_status = 204, resp_body = None\<rparr>)"
proof -
  have p: "req_pathname (sample_request None) \<in> set HANDLED_PATHS"
    and m: "req_method (sample_request None) = ''POST''"
    by (simp_all add: sample_request_def HANDLED_PATHS_def)
  have s: "\<not> is_set (EXPO_WEBHOOK_SECRET (sample_env\<lparr>EXPO_WEBHOOK_SECRET := None\<rparr>))"
    by (simp add: is_set_def)
  have r: "read_profile (safeJson
         (sample_world (JObj [(''metadata'', JObj [(''buildProfile'', JStr ''Production'')])])
            (\<lambda>out. Fetched 200 ''ok''))
         (req_body (sample_request None))) = JStr ''Production''"
    by (simp add: read_profile_def safeJson_def sample_world_def or_else_def truthy_def)
  have l: "lower ''Production'' \<noteq> ''preview''"
    by (simp add: lower_def lower_char_def is_upper_def code_def)
  show ?thesis
    using p m s r l
      non_preview_profile_skipped [OF p m disjI1 [OF s],
        of "sample_world (JObj [(''metadata'', JObj [(''buildProfile'', JStr ''Production'')])])
              (\<lambda>out. Fetched 200 ''ok'')" "''Production''"]
    by simp
qed

end
